theory Spec2Isabelle
  imports Complex_Main "HOL-Library.Multiset" "HOL-Library.Word"
begin

section \<open>Cells, frames and errors\<close>

text \<open>
  The script \<^verbatim>\<open>etl.py\<close> drives a tabular engine: it reads two sets of JSON files into
  frames, projects, deduplicates, derives calendar columns with Python lambdas, joins, and
  writes Parquet tables. The embedding keeps a frame as the script sees it: a list of column
  names and a list of rows, each row a list of cells in column order. Positions matter:
  after the join two columns are both called \<^verbatim>\<open>year\<close>.

  A cell is a null, a number, a text or, on the Python side only, a date-time object. The
  script wraps its lambdas with \<^verbatim>\<open>udf\<close> and names no return type, so the engine keeps
  the result of a lambda as text. A frame is a plan that the engine evaluates at the next
  write, and a lambda applied to a derived column receives the Python value that the first
  lambda returned. The cell \<open>PUdf v\<close> is such a derived cell: \<open>v\<close> on the Python side,
  the text of \<open>v\<close> once the engine stores it.
\<close>

record datetime =
  year :: int
  month :: int
  day :: int
  hour :: int
  minute :: int
  second :: int

datatype cell = PNone | PInt int | PStr string | PFloat real | PDatetime datetime | PUdf cell

datatype error =
    AnalysisException   \<comment> \<open>the engine rejects a plan: unknown or ambiguous column, bad partition column, missing path\<close>
  | AttributeError      \<comment> \<open>\<^verbatim>\<open>df.name\<close> on a frame without that column; \<^verbatim>\<open>x.hour\<close> on a non-datetime\<close>
  | TypeError           \<comment> \<open>\<^verbatim>\<open>int(None)\<close>\<close>
  | ValueError          \<comment> \<open>\<^verbatim>\<open>int('abc')\<close>; a second count outside the years 1 to 9999\<close>

definition and_then :: "error + 'a \<Rightarrow> ('a \<Rightarrow> error + 'b) \<Rightarrow> error + 'b" where
  "and_then r f = (case r of Inl e \<Rightarrow> Inl e | Inr v \<Rightarrow> f v)"

record dataframe =
  columns :: "string list"
  rows :: "cell list list"

text \<open>
  The reader returns frames whose column names are pairwise distinct and whose rows are as
  wide as the header.
\<close>

definition well_formed :: "dataframe \<Rightarrow> bool" where
  "well_formed df \<longleftrightarrow>
     distinct (columns df) \<and> list_all (\<lambda>r. length r = length (columns df)) (rows df)"

fun sequence :: "(error + 'a) list \<Rightarrow> error + 'a list" where
  "sequence [] = Inr []"
| "sequence (x # xs) =
     (case x of
        Inl e \<Rightarrow> Inl e
      | Inr v \<Rightarrow> (case sequence xs of Inl e \<Rightarrow> Inl e | Inr vs \<Rightarrow> Inr (v # vs)))"

fun index_of :: "string list \<Rightarrow> string \<Rightarrow> nat" where
  "index_of [] c = 0"
| "index_of (x # xs) c = (if x = c then 0 else Suc (index_of xs c))"

text \<open>
  A column name resolves when exactly one column carries it: none is an unknown column,
  two or more an ambiguous reference. Names are compared as written; the engine's default of
  ignoring the case of letters is not modelled.
\<close>

definition resolve :: "string list \<Rightarrow> string \<Rightarrow> error + nat" where
  "resolve cols c =
     (if count_list cols c = 1 then Inr (index_of cols c) else Inl AnalysisException)"

text \<open>\<^verbatim>\<open>df.name\<close>: the attribute exists only for a column of the frame.\<close>

definition attr :: "dataframe \<Rightarrow> string \<Rightarrow> error + nat" where
  "attr df c = (if c \<in> set (columns df) then resolve (columns df) c else Inl AttributeError)"

definition project :: "nat list \<Rightarrow> 'a list \<Rightarrow> 'a list" where
  "project idxs r = map (\<lambda>i. r ! i) idxs"

text \<open>\<^verbatim>\<open>df['a', 'b', ...]\<close> is \<^verbatim>\<open>df.select('a', 'b', ...)\<close>.\<close>

definition select :: "string list \<Rightarrow> dataframe \<Rightarrow> error + dataframe" where
  "select cs df =
     (case sequence (map (resolve (columns df)) cs) of
        Inl e \<Rightarrow> Inl e
      | Inr idxs \<Rightarrow> Inr \<lparr>columns = cs, rows = map (project idxs) (rows df)\<rparr>)"

text \<open>
  \<^verbatim>\<open>.distinct()\<close> keeps one copy of each row. The engine promises no row order, so the
  claims about it compare tables as multisets of rows.
\<close>

definition distinct_rows :: "dataframe \<Rightarrow> dataframe" where
  "distinct_rows df = df\<lparr>rows := remdups (rows df)\<rparr>"

section \<open>What the engine stores\<close>

text \<open>
  What the script takes from its surroundings:
  \<^item> the local time zone, as the offset from UTC in seconds at each instant;
  \<^item> Python's reading of a text as an integer (\<open>None\<close> where \<^verbatim>\<open>int\<close> raises);
  \<^item> the text that the engine gives a Python object which is neither \<^verbatim>\<open>None\<close>, an integer
    nor a text (for a date-time, the field dump \<^verbatim>\<open>java.util.GregorianCalendar[...]\<close>);
  \<^item> the engine's typing of partition values when it reads a partitioned table: the values
    are directory names, and the reader infers their types anew. The function is given the
    keys of all partition directories of the table and one of them, and returns that key as
    it is read.
\<close>

record env =
  utcoffset :: "int \<Rightarrow> int"
  int_of_str :: "string \<Rightarrow> int option"
  object_text :: "cell \<Rightarrow> string"
  read_partition_key :: "cell list list \<Rightarrow> cell list \<Rightarrow> cell list"

function str_digits :: "int \<Rightarrow> string" where
  "str_digits n =
     (if n < 10 then [''0123456789'' ! nat n]
      else str_digits (n div 10) @ [''0123456789'' ! nat (n mod 10)])"
  by pat_completeness auto
termination
  by (relation "measure nat") auto

text \<open>\<^verbatim>\<open>str(n)\<close> for an integer; the engine writes an integer the same way.\<close>

definition py_str :: "int \<Rightarrow> string" where
  "py_str n = (if n < 0 then CHR ''-'' # str_digits (- n) else str_digits n)"

text \<open>The value a lambda receives for a cell.\<close>

definition python_value :: "cell \<Rightarrow> cell" where
  "python_value c = (case c of PUdf v \<Rightarrow> v | _ \<Rightarrow> c)"

text \<open>
  The value the engine stores for a cell: a derived cell becomes the text of its value
  (\<^verbatim>\<open>None\<close> stays null), any other cell is stored as it is.
\<close>

definition stored :: "env \<Rightarrow> cell \<Rightarrow> cell" where
  "stored ev c =
     (case c of
        PUdf v \<Rightarrow>
          (case v of
             PNone \<Rightarrow> PNone
           | PInt n \<Rightarrow> PStr (py_str n)
           | PStr s \<Rightarrow> PStr s
           | _ \<Rightarrow> PStr (object_text ev v))
      | _ \<Rightarrow> c)"

text \<open>A write or a collect evaluates the frame.\<close>

definition materialize :: "env \<Rightarrow> dataframe \<Rightarrow> dataframe" where
  "materialize ev df = df\<lparr>rows := map (map (stored ev)) (rows df)\<rparr>"

section \<open>Storage: JSON inputs and partitioned Parquet tables\<close>

text \<open>
  A Parquet table on storage is one directory per combination of partition values, each
  holding the rows' remaining columns. Read back, the partition columns come last.
\<close>

record dataset =
  data_columns :: "string list"
  partition_columns :: "string list"
  partitions :: "(cell list \<times> cell list list) list"

datatype object = Json dataframe | Parquet dataset

type_synonym storage = "string \<Rightarrow> object option"

definition read_json :: "storage \<Rightarrow> string \<Rightarrow> error + dataframe" where
  "read_json fs path =
     (case fs path of Some (Json df) \<Rightarrow> Inr df | _ \<Rightarrow> Inl AnalysisException)"

text \<open>
  The positions of the partition columns, in the order asked for, and of the remaining
  columns, in the frame's order.
\<close>

definition partition_indices :: "string list \<Rightarrow> dataframe \<Rightarrow> nat list" where
  "partition_indices partitionBy df = map (index_of (columns df)) partitionBy"

definition data_indices :: "string list \<Rightarrow> dataframe \<Rightarrow> nat list" where
  "data_indices partitionBy df =
     filter (\<lambda>i. columns df ! i \<notin> set partitionBy) [0..<length (columns df)]"

definition to_dataset :: "string list \<Rightarrow> dataframe \<Rightarrow> dataset" where
  "to_dataset partitionBy df =
     (let pidx = partition_indices partitionBy df;
          didx = data_indices partitionBy df
      in \<lparr>data_columns = project didx (columns df),
          partition_columns = partitionBy,
          partitions =
            map (\<lambda>k. (k, map (project didx) (filter (\<lambda>r. project pidx r = k) (rows df))))
                (remdups (map (project pidx) (rows df)))\<rparr>)"

text \<open>
  Reading the table back. The rows of a partition get the partition's key appended, as the
  reader types it; a table without partition columns has no directory names to read.
\<close>

definition read_key :: "env \<Rightarrow> dataset \<Rightarrow> cell list \<Rightarrow> cell list" where
  "read_key ev ds k =
     (if partition_columns ds = [] then k
      else read_partition_key ev (map fst (partitions ds)) k)"

definition of_dataset :: "env \<Rightarrow> dataset \<Rightarrow> dataframe" where
  "of_dataset ev ds =
     \<lparr>columns = data_columns ds @ partition_columns ds,
      rows = concat (map (\<lambda>(k, rs). map (\<lambda>d. d @ read_key ev ds k) rs) (partitions ds))\<rparr>"

text \<open>
  \<^verbatim>\<open>df.write.partitionBy(...).parquet(path, 'overwrite')\<close>. The engine refuses, before it
  touches the destination, a frame or a partition list with a repeated column name, a
  partition column that the frame does not have, and a partitioning that leaves no data
  column. Otherwise the frame is evaluated and whatever was at the path is replaced by it.
  Failures of the storage itself are not modelled.
\<close>

definition write_parquet ::
  "env \<Rightarrow> dataframe \<Rightarrow> string \<Rightarrow> string list \<Rightarrow> storage \<Rightarrow> error + storage" where
  "write_parquet ev df path partitionBy fs =
     (if \<not> distinct (columns df) \<or> \<not> distinct partitionBy then Inl AnalysisException
      else if \<not> set partitionBy \<subseteq> set (columns df) then Inl AnalysisException
      else if partitionBy \<noteq> [] \<and> length partitionBy = length (columns df) then Inl AnalysisException
      else Inr (fs(path \<mapsto> Parquet (to_dataset partitionBy (materialize ev df)))))"

definition read_parquet :: "env \<Rightarrow> storage \<Rightarrow> string \<Rightarrow> error + dataframe" where
  "read_parquet ev fs path =
     (case fs path of Some (Parquet ds) \<Rightarrow> Inr (of_dataset ev ds) | _ \<Rightarrow> Inl AnalysisException)"

text \<open>\<^verbatim>\<open>os.path.join(a, b)\<close> for a relative \<^verbatim>\<open>b\<close>.\<close>

definition path_join :: "string \<Rightarrow> string \<Rightarrow> string" where
  "path_join a b = (if a = [] \<or> last a = CHR ''/'' then a @ b else a @ CHR ''/'' # b)"

section \<open>Catalog Transformer: \<^verbatim>\<open>process_song_data\<close>\<close>

definition songs_table :: "dataframe \<Rightarrow> error + dataframe" where
  "songs_table df =
     map_sum id distinct_rows
       (select [''song_id'', ''title'', ''artist_id'', ''year'', ''duration''] df)"

definition artists_table :: "dataframe \<Rightarrow> error + dataframe" where
  "artists_table df =
     map_sum id distinct_rows
       (select [''artist_id'', ''artist_name'', ''artist_location'', ''artist_latitude'',
                ''artist_longitude''] df)"

definition process_song_data ::
  "env \<Rightarrow> string \<Rightarrow> string \<Rightarrow> storage \<Rightarrow> (error + unit) \<times> storage" where
  "process_song_data ev input_data output_data fs =
     (case read_json fs (path_join input_data ''song_data/*/*/*/*.json'') of
        Inl e \<Rightarrow> (Inl e, fs)
      | Inr df \<Rightarrow>
     (case songs_table df of
        Inl e \<Rightarrow> (Inl e, fs)
      | Inr songs \<Rightarrow>
     (case write_parquet ev songs (output_data @ ''songs_table.parquet'') [''year'', ''artist_id''] fs of
        Inl e \<Rightarrow> (Inl e, fs)
      | Inr fs1 \<Rightarrow>
     (case artists_table df of
        Inl e \<Rightarrow> (Inl e, fs1)
      | Inr artists \<Rightarrow>
     (case write_parquet ev artists (output_data @ ''artists_table.parquet'') [] fs1 of
        Inl e \<Rightarrow> (Inl e, fs1)
      | Inr fs2 \<Rightarrow> (Inr (), fs2))))))"

section \<open>Python's calendar arithmetic\<close>

text \<open>
  The lambdas of \<^verbatim>\<open>process_log_data\<close> call \<^verbatim>\<open>int\<close>, \<^verbatim>\<open>datetime.fromtimestamp\<close>,
  \<^verbatim>\<open>weekday\<close>, \<^verbatim>\<open>isocalendar\<close> and \<^verbatim>\<open>calendar.day_name\<close>. The functions below follow the
  standard library's own Python implementation of the proleptic Gregorian calendar, in which
  day 1 is 0001-01-01 and 1970-01-01 is day 719163.
\<close>

definition is_leap :: "int \<Rightarrow> bool" where
  "is_leap y \<longleftrightarrow> y mod 4 = 0 \<and> (y mod 100 \<noteq> 0 \<or> y mod 400 = 0)"

definition days_before_year :: "int \<Rightarrow> int" where
  "days_before_year y = (y - 1) * 365 + (y - 1) div 4 - (y - 1) div 100 + (y - 1) div 400"

definition DAYS_IN_MONTH :: "int list" where
  "DAYS_IN_MONTH = [-1, 31, 28, 31, 30, 31, 30, 31, 31, 30, 31, 30, 31]"

definition DAYS_BEFORE_MONTH :: "int list" where
  "DAYS_BEFORE_MONTH = [-1, 0, 31, 59, 90, 120, 151, 181, 212, 243, 273, 304, 334]"

definition days_in_month :: "int \<Rightarrow> int \<Rightarrow> int" where
  "days_in_month y m = (if m = 2 \<and> is_leap y then 29 else DAYS_IN_MONTH ! nat m)"

definition days_before_month :: "int \<Rightarrow> int \<Rightarrow> int" where
  "days_before_month y m =
     DAYS_BEFORE_MONTH ! nat m + (if m > 2 \<and> is_leap y then 1 else 0)"

definition ymd2ord :: "int \<Rightarrow> int \<Rightarrow> int \<Rightarrow> int" where
  "ymd2ord y m d = days_before_year y + days_before_month y m + d"

text \<open>
  \<^verbatim>\<open>_ord2ymd\<close>: whole 400-year, 100-year, 4-year and 1-year cycles are peeled off the day
  number, then the month is estimated and corrected.
\<close>

definition ord2ymd :: "int \<Rightarrow> int \<times> int \<times> int" where
  "ord2ymd n0 =
     (let n = n0 - 1;
          n400 = n div 146097; n = n mod 146097;
          n100 = n div 36524; n = n mod 36524;
          n4 = n div 1461; n = n mod 1461;
          n1 = n div 365; n = n mod 365;
          y = n400 * 400 + 1 + n100 * 100 + n4 * 4 + n1
      in if n1 = 4 \<or> n100 = 4 then (y - 1, 12, 31)
         else
           let leapyear = (n1 = 3 \<and> (n4 \<noteq> 24 \<or> n100 = 3));
               m = (n + 50) div 32;
               preceding = DAYS_BEFORE_MONTH ! nat m + (if m > 2 \<and> leapyear then 1 else 0)
           in if preceding > n
              then (y, m - 1,
                    n - (preceding - (DAYS_IN_MONTH ! nat (m - 1)
                                      + (if m - 1 = 2 \<and> leapyear then 1 else 0))) + 1)
              else (y, m, n - preceding + 1))"

text \<open>\<^verbatim>\<open>date.weekday()\<close>: Monday is 0.\<close>

definition weekday :: "datetime \<Rightarrow> int" where
  "weekday d = (ymd2ord (year d) (month d) (day d) + 6) mod 7"

definition isoweek1monday :: "int \<Rightarrow> int" where
  "isoweek1monday y =
     (let firstday = ymd2ord y 1 1;
          firstweekday = (firstday + 6) mod 7;
          week1monday = firstday - firstweekday
      in if firstweekday > 3 then week1monday + 7 else week1monday)"

text \<open>\<^verbatim>\<open>date.isocalendar()\<close>: ISO year, ISO week number, ISO day of week.\<close>

definition isocalendar :: "datetime \<Rightarrow> int \<times> int \<times> int" where
  "isocalendar d =
     (let y = year d;
          week1monday = isoweek1monday y;
          today = ymd2ord (year d) (month d) (day d);
          week = (today - week1monday) div 7;
          wday = (today - week1monday) mod 7
      in if week < 0
         then (let week1monday = isoweek1monday (y - 1)
               in (y - 1, (today - week1monday) div 7 + 1, (today - week1monday) mod 7 + 1))
         else if week \<ge> 52 \<and> today \<ge> isoweek1monday (y + 1)
         then (y + 1, 1, wday + 1)
         else (y, week + 1, wday + 1))"

text \<open>\<^verbatim>\<open>calendar.day_name\<close> in the C or an English locale.\<close>

definition day_name :: "string list" where
  "day_name = [''Monday'', ''Tuesday'', ''Wednesday'', ''Thursday'', ''Friday'', ''Saturday'',
               ''Sunday'']"

text \<open>
  The checks that the \<^verbatim>\<open>datetime\<close> constructor makes on its fields.
\<close>

definition valid_datetime :: "datetime \<Rightarrow> bool" where
  "valid_datetime d \<longleftrightarrow>
     1 \<le> year d \<and> year d \<le> 9999 \<and> 1 \<le> month d \<and> month d \<le> 12 \<and>
     1 \<le> day d \<and> day d \<le> days_in_month (year d) (month d) \<and>
     0 \<le> hour d \<and> hour d < 24 \<and> 0 \<le> minute d \<and> minute d < 60 \<and>
     0 \<le> second d \<and> second d < 60"

text \<open>
  The local civil time of an instant, as a count of seconds: the standard library's helper
  \<^verbatim>\<open>local\<close>, which refuses a local time outside the years 1 to 9999.
\<close>

definition local_seconds :: "env \<Rightarrow> int \<Rightarrow> error + int" where
  "local_seconds ev u =
     (let lt = u + utcoffset ev u;
          ordinal = lt div 86400 + 719163
      in if ordinal < 1 \<or> ordinal > 3652059 then Inl ValueError else Inr lt)"

text \<open>The date and time of a count of local seconds.\<close>

definition civil_time :: "int \<Rightarrow> datetime" where
  "civil_time lt =
     (let s = lt mod 86400
      in case ord2ymd (lt div 86400 + 719163) of
           (y, m, d) \<Rightarrow>
             \<lparr>year = y, month = m, day = d, hour = s div 3600,
              minute = s mod 3600 div 60, second = s mod 60\<rparr>)"

text \<open>
  \<^verbatim>\<open>datetime.fromtimestamp(t)\<close> for a whole number of seconds and no zone argument: the
  civil date and time of the local zone. To tell the two readings of a repeated local hour
  apart, the conversion also looks up the local time 24 hours earlier and, when the zone
  offset has dropped in between, the local time at one more instant; each lookup fails for
  a local time outside the years 1 to 9999, and then the conversion fails. (This is the
  behaviour on a platform whose \<^verbatim>\<open>localtime\<close> accepts negative counts.)
\<close>

definition fromtimestamp :: "env \<Rightarrow> int \<Rightarrow> error + datetime" where
  "fromtimestamp ev t =
     and_then (local_seconds ev t) (\<lambda>result_seconds.
     and_then (local_seconds ev (t - 86400)) (\<lambda>probe_seconds.
     let transition = result_seconds - probe_seconds - 86400
     in and_then (if transition < 0 then local_seconds ev (t + transition)
                  else Inr probe_seconds) (\<lambda>probe.
        Inr (civil_time result_seconds))))"

text \<open>
  The second count that a civil date and time stands for when read as UTC, the way
  \<^verbatim>\<open>calendar.timegm\<close> computes it; used to say which instant a derived value denotes.
\<close>

definition seconds_since_epoch :: "datetime \<Rightarrow> int" where
  "seconds_since_epoch d =
     (ymd2ord (year d) (month d) (day d) - 719163) * 86400
       + hour d * 3600 + minute d * 60 + second d"

text \<open>\<^verbatim>\<open>int(x)\<close>.\<close>

definition py_int :: "env \<Rightarrow> cell \<Rightarrow> error + int" where
  "py_int ev x =
     (case x of
        PNone \<Rightarrow> Inl TypeError
      | PInt n \<Rightarrow> Inr n
      | PStr s \<Rightarrow> (case int_of_str ev s of None \<Rightarrow> Inl ValueError | Some n \<Rightarrow> Inr n)
      | PFloat r \<Rightarrow> Inr (if r \<ge> 0 then \<lfloor>r\<rfloor> else \<lceil>r\<rceil>)
      | PDatetime d \<Rightarrow> Inl TypeError
      | PUdf v \<Rightarrow> Inl TypeError)"

text \<open>
  \<^verbatim>\<open>int(n / 1000)\<close>: the true quotient, cut towards zero. Python computes the quotient in
  binary floating point; the result is this integer for every \<open>n\<close> below \<open>2 ^ 53\<close> in absolute
  value, a range that contains every millisecond count whose second lies in the years 1 to
  9999 (for zone offsets of the size real zones have). Beyond it only the last digits of the
  text in the \<^verbatim>\<open>timestamp\<close> column can differ.
\<close>

definition int_div_1000 :: "int \<Rightarrow> int" where
  "int_div_1000 n = (if n \<ge> 0 then n div 1000 else - ((- n) div 1000))"

subsection \<open>The lambdas of \<^verbatim>\<open>process_log_data\<close>\<close>

definition get_timestamp :: "env \<Rightarrow> cell \<Rightarrow> error + cell" where
  "get_timestamp ev x =
     (case py_int ev x of Inl e \<Rightarrow> Inl e | Inr n \<Rightarrow> Inr (PStr (py_str (int_div_1000 n))))"

definition get_datetime :: "env \<Rightarrow> cell \<Rightarrow> error + cell" where
  "get_datetime ev x =
     (case py_int ev x of
        Inl e \<Rightarrow> Inl e
      | Inr n \<Rightarrow> map_sum id PDatetime (fromtimestamp ev (int_div_1000 n)))"

text \<open>
  The names are the script's: \<^verbatim>\<open>get_week\<close> is the lambda that indexes \<^verbatim>\<open>calendar.day_name\<close>
  with \<^verbatim>\<open>x.weekday()\<close>, and \<^verbatim>\<open>get_weekday\<close> the one that takes \<^verbatim>\<open>x.isocalendar()[1]\<close>.
\<close>

definition get_week :: "cell \<Rightarrow> error + cell" where
  "get_week x =
     (case x of PDatetime d \<Rightarrow> Inr (PStr (day_name ! nat (weekday d))) | _ \<Rightarrow> Inl AttributeError)"

definition get_weekday :: "cell \<Rightarrow> error + cell" where
  "get_weekday x =
     (case x of PDatetime d \<Rightarrow> Inr (PInt (fst (snd (isocalendar d)))) | _ \<Rightarrow> Inl AttributeError)"

definition get_hour :: "cell \<Rightarrow> error + cell" where
  "get_hour x = (case x of PDatetime d \<Rightarrow> Inr (PInt (hour d)) | _ \<Rightarrow> Inl AttributeError)"

definition get_day :: "cell \<Rightarrow> error + cell" where
  "get_day x = (case x of PDatetime d \<Rightarrow> Inr (PInt (day d)) | _ \<Rightarrow> Inl AttributeError)"

definition get_year :: "cell \<Rightarrow> error + cell" where
  "get_year x = (case x of PDatetime d \<Rightarrow> Inr (PInt (year d)) | _ \<Rightarrow> Inl AttributeError)"

definition get_month :: "cell \<Rightarrow> error + cell" where
  "get_month x = (case x of PDatetime d \<Rightarrow> Inr (PInt (month d)) | _ \<Rightarrow> Inl AttributeError)"

section \<open>Frame operations of \<^verbatim>\<open>process_log_data\<close>\<close>

text \<open>
  \<^verbatim>\<open>df.withColumn(name, values)\<close>: a column of that name is replaced where it stands, a new
  name is appended.
\<close>

definition withColumn :: "string \<Rightarrow> cell list \<Rightarrow> dataframe \<Rightarrow> dataframe" where
  "withColumn name vals df =
     (if name \<in> set (columns df)
      then df\<lparr>rows := map (\<lambda>(r, v). r[index_of (columns df) name := v]) (zip (rows df) vals)\<rparr>
      else \<lparr>columns = columns df @ [name],
            rows = map (\<lambda>(r, v). r @ [v]) (zip (rows df) vals)\<rparr>)"

text \<open>
  \<^verbatim>\<open>df.withColumn(name, f(df.src))\<close> for a lambda \<open>f\<close> wrapped by \<^verbatim>\<open>udf\<close> without a return
  type. The lambda runs on every row, null cells included, on the Python value of the source
  cell; the first exception ends the run, and the new cells are derived cells. The engine
  evaluates lazily, at the next write; the script writes nothing between building these
  columns and using them, so the model runs the lambdas where the columns are built.
\<close>

definition with_udf_column ::
  "string \<Rightarrow> (cell \<Rightarrow> error + cell) \<Rightarrow> string \<Rightarrow> dataframe \<Rightarrow> error + dataframe" where
  "with_udf_column name f src df =
     and_then (attr df src) (\<lambda>i.
     and_then (sequence (map (\<lambda>r. f (python_value (r ! i))) (rows df))) (\<lambda>vals.
     Inr (withColumn name (map PUdf vals) df)))"

text \<open>
  SQL equality in a join condition: a null equals nothing. Cells of different kinds are
  unequal; the casts the engine inserts between columns of different types are not modelled.
  The two columns that the script joins on are a column of the event files and a column of
  the stored songs table, never derived ones.
\<close>

definition sql_eq :: "cell \<Rightarrow> cell \<Rightarrow> bool" where
  "sql_eq a b \<longleftrightarrow> a \<noteq> PNone \<and> b \<noteq> PNone \<and> a = b"

text \<open>The rows that one left row contributes to an inner join.\<close>

definition matches :: "dataframe \<Rightarrow> nat \<Rightarrow> nat \<Rightarrow> cell list \<Rightarrow> cell list list" where
  "matches other oi i a = map (\<lambda>b. a @ b) (filter (\<lambda>b. sql_eq (b ! oi) (a ! i)) (rows other))"

text \<open>\<^verbatim>\<open>df.join(other, other.c == df.d)\<close>, with the two columns given by position.\<close>

definition join :: "dataframe \<Rightarrow> dataframe \<Rightarrow> nat \<Rightarrow> nat \<Rightarrow> dataframe" where
  "join df other oi i =
     \<lparr>columns = columns df @ columns other,
      rows = concat (map (matches other oi i) (rows df))\<rparr>"

section \<open>Calendar Transformer and Fact Assembler: \<^verbatim>\<open>process_log_data\<close>\<close>

definition users_table :: "dataframe \<Rightarrow> error + dataframe" where
  "users_table df =
     map_sum id distinct_rows
       (select [''userId'', ''firstName'', ''lastName'', ''gender'', ''level''] df)"

text \<open>Lines 84 to 102: the frame with the derived columns.\<close>

definition add_time_columns :: "env \<Rightarrow> dataframe \<Rightarrow> error + dataframe" where
  "add_time_columns ev df =
     and_then (with_udf_column ''timestamp'' (get_timestamp ev) ''ts'' df) (\<lambda>df.
     and_then (with_udf_column ''start_time'' (get_datetime ev) ''ts'' df) (\<lambda>df.
     and_then (with_udf_column ''hour'' get_hour ''start_time'' df) (\<lambda>df.
     and_then (with_udf_column ''day'' get_day ''start_time'' df) (\<lambda>df.
     and_then (with_udf_column ''week'' get_week ''start_time'' df) (\<lambda>df.
     and_then (with_udf_column ''month'' get_month ''start_time'' df) (\<lambda>df.
     and_then (with_udf_column ''year'' get_year ''start_time'' df) (\<lambda>df.
     with_udf_column ''weekday'' get_weekday ''start_time'' df)))))))"

definition time_table :: "dataframe \<Rightarrow> error + dataframe" where
  "time_table df =
     select [''start_time'', ''hour'', ''day'', ''week'', ''month'', ''year'', ''weekday''] df"

text \<open>
  Lines 114 and 115: the inner join of the event frame with the songs read back from
  storage, on \<^verbatim>\<open>song_df.title == df.song\<close>, and the projection to the fact columns.
\<close>

definition songplays_table :: "dataframe \<Rightarrow> dataframe \<Rightarrow> error + dataframe" where
  "songplays_table song_df df =
     and_then (attr song_df ''title'') (\<lambda>t.
     and_then (attr df ''song'') (\<lambda>s.
     select [''start_time'', ''userId'', ''level'', ''song_id'', ''artist_id'', ''sessionId'',
             ''location'', ''userAgent''] (join df song_df t s)))"

text \<open>
  Line 116 selects \<^verbatim>\<open>monotonically_increasing_id()\<close> into a frame of its own, collects it
  and drops the result. The engine numbers the rows of partition \<open>p\<close> from \<open>p\<close> shifted left
  by 33 bits, in 64-bit arithmetic; the rows of a frame are its partitions in order.
\<close>

definition monotonically_increasing_id :: "nat \<Rightarrow> nat \<Rightarrow> 64 word" where
  "monotonically_increasing_id p i = push_bit 33 (word_of_nat p) + word_of_nat i"

fun ids_from :: "nat \<Rightarrow> 'a list list \<Rightarrow> 64 word list" where
  "ids_from p [] = []"
| "ids_from p (rs # parts) =
     map (monotonically_increasing_id p) [0..<length rs] @ ids_from (Suc p) parts"

definition songplay_ids :: "'a list list \<Rightarrow> 64 word list" where
  "songplay_ids parts = ids_from 0 parts"

text \<open>
  Lines 69 to 115 of \<^verbatim>\<open>process_log_data\<close>: the users and time tables are written, the songs
  table is read back, and the fact frame is built.
\<close>

definition assemble_songplays ::
  "env \<Rightarrow> string \<Rightarrow> string \<Rightarrow> storage \<Rightarrow> (error + dataframe) \<times> storage" where
  "assemble_songplays ev input_data output_data fs =
     (case read_json fs (path_join input_data ''log_data/*/*/*.json'') of
        Inl e \<Rightarrow> (Inl e, fs)
      | Inr df \<Rightarrow>
     (case select [''ts'', ''userId'', ''level'', ''sessionId'', ''location'', ''userAgent''] df of
        Inl e \<Rightarrow> (Inl e, fs)
      | Inr unused \<Rightarrow>
     (case users_table df of
        Inl e \<Rightarrow> (Inl e, fs)
      | Inr users \<Rightarrow>
     (case write_parquet ev users (output_data @ ''users_table.parquet'') [] fs of
        Inl e \<Rightarrow> (Inl e, fs)
      | Inr fs1 \<Rightarrow>
     (case add_time_columns ev df of
        Inl e \<Rightarrow> (Inl e, fs1)
      | Inr df \<Rightarrow>
     (case time_table df of
        Inl e \<Rightarrow> (Inl e, fs1)
      | Inr time_tab \<Rightarrow>
     (case write_parquet ev time_tab (output_data @ ''time_table.parquet'') [''year'', ''month''] fs1 of
        Inl e \<Rightarrow> (Inl e, fs1)
      | Inr fs2 \<Rightarrow>
     (case read_parquet ev fs2 (output_data @ ''songs_table.parquet'') of
        Inl e \<Rightarrow> (Inl e, fs2)
      | Inr song_df \<Rightarrow> (songplays_table song_df df, fs2)))))))))"

definition process_log_data ::
  "env \<Rightarrow> string \<Rightarrow> string \<Rightarrow> storage \<Rightarrow> (error + unit) \<times> storage" where
  "process_log_data ev input_data output_data fs =
     (case assemble_songplays ev input_data output_data fs of
        (Inl e, fs2) \<Rightarrow> (Inl e, fs2)
      | (Inr songplays, fs2) \<Rightarrow>
     (case write_parquet ev songplays (output_data @ ''songplays_table.parquet'')
             [''year'', ''month''] fs2 of
        Inl e \<Rightarrow> (Inl e, fs2)
      | Inr fs3 \<Rightarrow> (Inr (), fs3)))"

section \<open>Pipeline Driver: \<^verbatim>\<open>main\<close>\<close>

definition input_data :: string where
  "input_data = ''s3a://udacity-dend/''"

definition output_data :: string where
  "output_data = ''s3a://u-de-project4/''"

definition main :: "env \<Rightarrow> storage \<Rightarrow> (error + unit) \<times> storage" where
  "main ev fs =
     (case process_song_data ev input_data output_data fs of
        (Inl e, fs1) \<Rightarrow> (Inl e, fs1)
      | (Inr u, fs1) \<Rightarrow> process_log_data ev input_data output_data fs1)"

section \<open>Observations on frames\<close>

text \<open>\<^verbatim>\<open>row[c]\<close>: the cell of a row of the frame under the column named \<open>c\<close>.\<close>

definition cell_of :: "dataframe \<Rightarrow> string \<Rightarrow> cell list \<Rightarrow> cell" where
  "cell_of df c r = r ! index_of (columns df) c"

text \<open>
  The fact rows that one event row gives rise to: the rows of the fact frame that lines 114
  and 115 build when the event frame holds that row alone.
\<close>

definition fact_rows_of :: "dataframe \<Rightarrow> dataframe \<Rightarrow> cell list \<Rightarrow> cell list list" where
  "fact_rows_of song_df df a =
     (case songplays_table song_df (df\<lparr>rows := [a]\<rparr>) of Inl e \<Rightarrow> [] | Inr sp \<Rightarrow> rows sp)"

text \<open>
  A stored table whose partition values the reader hands back as they were written.
\<close>

definition keys_read_as_written :: "env \<Rightarrow> dataset \<Rightarrow> bool" where
  "keys_read_as_written ev ds \<longleftrightarrow> list_all (\<lambda>k. read_key ev ds k = k) (map fst (partitions ds))"

text \<open>
  An instant whose local time lies in the years 1 to 9999: the second counts from
  0001-01-01 00:00:00 up to 9999-12-31 23:59:59.
\<close>

definition local_year_in_range :: "env \<Rightarrow> int \<Rightarrow> bool" where
  "local_year_in_range ev u \<longleftrightarrow>
     - 62135596800 \<le> u + utcoffset ev u \<and> u + utcoffset ev u < 253402300800"

section \<open>A second example: one title under two tracks\<close>

definition example_song_df :: dataframe where
  "example_song_df =
     \<lparr>columns = [''song_id'', ''title'', ''duration'', ''year'', ''artist_id''],
      rows = [[PStr ''T1'', PStr ''Song A'', PFloat 210, PInt 2000, PStr ''P1''],
              [PStr ''T2'', PStr ''Song B'', PFloat 180, PInt 1999, PStr ''P1''],
              [PStr ''T3'', PStr ''Song B'', PFloat 185, PInt 2004, PStr ''P2'']]\<rparr>"

definition example_log_df :: dataframe where
  "example_log_df =
     \<lparr>columns = [''userId'', ''level'', ''sessionId'', ''location'', ''userAgent'', ''song'',
                 ''start_time''],
      rows = [[PStr ''8'', PStr ''free'', PInt 139, PStr ''Town'', PStr ''Mozilla'',
               PStr ''Song A'',
               PUdf (PDatetime
                 \<lparr>year = 2001, month = 9, day = 9, hour = 1, minute = 46, second = 40\<rparr>)],
              [PStr ''8'', PStr ''free'', PInt 139, PStr ''Town'', PStr ''Mozilla'',
               PStr ''Song B'',
               PUdf (PDatetime
                 \<lparr>year = 2001, month = 9, day = 9, hour = 1, minute = 50, second = 0\<rparr>)],
              [PStr ''9'', PStr ''paid'', PInt 140, PStr ''City'', PStr ''Opera'',
               PStr ''Song C'',
               PUdf (PDatetime
                 \<lparr>year = 2001, month = 9, day = 9, hour = 2, minute = 0, second = 0\<rparr>)],
              [PStr ''9'', PStr ''paid'', PInt 140, PStr ''City'', PStr ''Opera'',
               PNone,
               PUdf (PDatetime
                 \<lparr>year = 2001, month = 9, day = 9, hour = 2, minute = 1, second = 0\<rparr>)]]\<rparr>"

text \<open>The fact rows of this example: one for the first event, two for the second.\<close>

definition example_fact_rows :: "cell list list" where
  "example_fact_rows =
     [[PUdf (PDatetime \<lparr>year = 2001, month = 9, day = 9, hour = 1, minute = 46, second = 40\<rparr>),
       PStr ''8'', PStr ''free'', PStr ''T1'', PStr ''P1'', PInt 139, PStr ''Town'',
       PStr ''Mozilla''],
      [PUdf (PDatetime \<lparr>year = 2001, month = 9, day = 9, hour = 1, minute = 50, second = 0\<rparr>),
       PStr ''8'', PStr ''free'', PStr ''T2'', PStr ''P1'', PInt 139, PStr ''Town'',
       PStr ''Mozilla''],
      [PUdf (PDatetime \<lparr>year = 2001, month = 9, day = 9, hour = 1, minute = 50, second = 0\<rparr>),
       PStr ''8'', PStr ''free'', PStr ''T3'', PStr ''P2'', PInt 139, PStr ''Town'',
       PStr ''Mozilla'']]"

section \<open>The scenario of the specification\<close>

text \<open>
  Two identical catalog records for the track \<^verbatim>\<open>T1\<close>, titled \<^verbatim>\<open>Song A\<close>, of the artist
  with the given identifier, and one event that plays \<^verbatim>\<open>Song A\<close> at the millisecond
  1000000000000, stored where \<^verbatim>\<open>main\<close> reads them. The scenario has the artist \<^verbatim>\<open>P1\<close>.
\<close>

definition catalog_of_artist :: "string \<Rightarrow> dataframe" where
  "catalog_of_artist a =
     \<lparr>columns = [''song_id'', ''title'', ''artist_id'', ''year'', ''duration'', ''artist_name'',
                 ''artist_location'', ''artist_latitude'', ''artist_longitude''],
      rows = [[PStr ''T1'', PStr ''Song A'', PStr a, PInt 2000, PFloat 210, PStr ''Band'',
               PStr ''Town'', PNone, PNone],
              [PStr ''T1'', PStr ''Song A'', PStr a, PInt 2000, PFloat 210, PStr ''Band'',
               PStr ''Town'', PNone, PNone]]\<rparr>"

definition scenario_catalog :: dataframe where
  "scenario_catalog = catalog_of_artist ''P1''"

definition scenario_events :: dataframe where
  "scenario_events =
     \<lparr>columns = [''ts'', ''userId'', ''level'', ''sessionId'', ''location'', ''userAgent'',
                 ''firstName'', ''lastName'', ''gender'', ''song''],
      rows = [[PInt 1000000000000, PStr ''8'', PStr ''free'', PInt 139, PStr ''Town'',
               PStr ''Mozilla'', PStr ''Ann'', PStr ''Lee'', PStr ''F'', PStr ''Song A'']]\<rparr>"

definition storage_of_artist :: "string \<Rightarrow> storage" where
  "storage_of_artist a =
     [''s3a://udacity-dend/song_data/*/*/*/*.json'' \<mapsto> Json (catalog_of_artist a),
      ''s3a://udacity-dend/log_data/*/*/*.json'' \<mapsto> Json scenario_events]"

definition scenario_storage :: storage where
  "scenario_storage = storage_of_artist ''P1''"

text \<open>
  The surroundings of the examples. The local zone is UTC. No text is read as an integer
  (the examples have no timestamp that is a text). The text of an object is cut short to
  the name of the class that the engine shows for a date-time. The reader of partition
  values does what the engine does by default for the values of the examples: a column
  whose directory names are all numbers of at most nine digits is read as integers, so that
  leading zeros are lost; the values of any other column are left as they were written.
\<close>

definition digit_text :: "cell \<Rightarrow> bool" where
  "digit_text c =
     (case c of
        PInt n \<Rightarrow> True
      | PStr s \<Rightarrow> s \<noteq> [] \<and> length s \<le> 9 \<and> list_all (\<lambda>ch. ch \<in> set ''0123456789'') s
      | _ \<Rightarrow> False)"

definition digits_value :: "string \<Rightarrow> int" where
  "digits_value s =
     fold (\<lambda>ch n. 10 * n + int (length (takeWhile (\<lambda>d. d \<noteq> ch) ''0123456789''))) s 0"

definition infer_partition_key :: "cell list list \<Rightarrow> cell list \<Rightarrow> cell list" where
  "infer_partition_key keys k =
     map (\<lambda>j. if list_all (\<lambda>k'. digit_text (k' ! j)) keys
              then (case k ! j of PStr s \<Rightarrow> PInt (digits_value s) | c \<Rightarrow> c)
              else k ! j)
         [0..<length k]"

definition utc :: env where
  "utc = \<lparr>utcoffset = (\<lambda>t. 0), int_of_str = (\<lambda>s. None),
          object_text = (\<lambda>v. ''java.util.GregorianCalendar[...]''),
          read_partition_key = infer_partition_key\<rparr>"

section \<open>Projection and column resolution\<close>

lemma sequence_resolve:
  "sequence (map (resolve cols) cs) =
     (if \<forall>c\<in>set cs. count_list cols c = 1 then Inr (map (index_of cols) cs)
      else Inl AnalysisException)"
  by (induction cs) (auto simp: resolve_def)

lemma select_eq:
  "select cs df =
     (if \<forall>c\<in>set cs. count_list (columns df) c = 1
      then Inr \<lparr>columns = cs, rows = map (project (map (index_of (columns df)) cs)) (rows df)\<rparr>
      else Inl AnalysisException)"
  by (simp add: select_def sequence_resolve)

lemma and_then_Inr:
  "and_then r f = Inr v \<longleftrightarrow> (\<exists>u. r = Inr u \<and> f u = Inr v)"
  by (cases r) (simp_all add: and_then_def)

lemma and_then_InrE:
  assumes "and_then r f = Inr v"
  obtains u where "r = Inr u" "f u = Inr v"
  using assms by (auto simp: and_then_Inr)

lemma and_then_Inl_iff:
  "(\<exists>e. and_then r f = Inl e) \<longleftrightarrow> (\<exists>e. r = Inl e) \<or> (\<exists>u. r = Inr u \<and> (\<exists>e. f u = Inl e))"
  by (cases r) (simp_all add: and_then_def)

lemma fst_eq_pair: "fst x = a \<Longrightarrow> x = (a, snd x)"
  by auto

section \<open>Writing and reading back\<close>

lemma columns_materialize [simp]: "columns (materialize ev df) = columns df"
  by (simp add: materialize_def)

lemma rows_materialize [simp]: "rows (materialize ev df) = map (map (stored ev)) (rows df)"
  by (simp add: materialize_def)

lemma data_indices_materialize [simp]: "data_indices pb (materialize ev df) = data_indices pb df"
  by (simp add: data_indices_def)

lemma partition_indices_materialize [simp]:
  "partition_indices pb (materialize ev df) = partition_indices pb df"
  by (simp add: partition_indices_def)

lemma project_map: "project idx (map f r) = map f (project idx r)" if "\<forall>i\<in>set idx. i < length r"
  using that by (simp add: project_def)

lemma write_parquet_Inr:
  "write_parquet ev df p pb fs = Inr fs1 \<Longrightarrow>
   fs1 = fs(p \<mapsto> Parquet (to_dataset pb (materialize ev df)))"
  by (simp add: write_parquet_def split: if_splits)

lemma write_parquet_Inr_other:
  "write_parquet ev df p pb fs = Inr fs1 \<Longrightarrow>
   write_parquet ev df p pb fs' = Inr (fs'(p \<mapsto> Parquet (to_dataset pb (materialize ev df))))"
  by (simp add: write_parquet_def split: if_splits)

lemma concat_insert_once:
  "distinct ks \<Longrightarrow> k0 \<in> set ks \<Longrightarrow>
   mset (concat (map (\<lambda>k. if k0 = k then x # F k else F k) ks)) =
   add_mset x (mset (concat (map F ks)))"
proof (induction ks)
  case Nil
  then show ?case by simp
next
  case (Cons k ks)
  show ?case
  proof (cases "k0 = k")
    case True
    then have "k \<notin> set ks" using Cons.prems by simp
    then have *: "map (\<lambda>ka. if k = ka then x # F ka else F ka) ks = map F ks"
      by (intro map_cong) auto
    from True show ?thesis by (simp add: *)
  next
    case False
    with Cons show ?thesis by simp
  qed
qed

text \<open>Grouping rows by a key and reading the groups one after the other loses no row.\<close>

lemma mset_group:
  "distinct ks \<Longrightarrow> f ` set xs \<subseteq> set ks \<Longrightarrow>
   mset (concat (map (\<lambda>k. filter (\<lambda>r. f r = k) xs) ks)) = mset xs"
proof (induction xs)
  case Nil
  then show ?case by (induction ks) auto
next
  case (Cons x xs)
  have "mset (concat (map (\<lambda>k. filter (\<lambda>r. f r = k) (x # xs)) ks)) =
        mset (concat (map (\<lambda>k. if f x = k then x # filter (\<lambda>r. f r = k) xs
                                else filter (\<lambda>r. f r = k) xs) ks))"
    by (simp cong: if_cong)
  also have "\<dots> = add_mset x (mset (concat (map (\<lambda>k. filter (\<lambda>r. f r = k) xs) ks)))"
    using Cons.prems by (intro concat_insert_once) auto
  finally show ?case using Cons by simp
qed

lemma map_filter_key:
  "map (\<lambda>r. g r @ h k) (filter (\<lambda>r. f r = k) xs) =
   map (\<lambda>r. g r @ h (f r)) (filter (\<lambda>r. f r = k) xs)"
  by (induction xs) auto

lemma partition_columns_to_dataset [simp]: "partition_columns (to_dataset pb df) = pb"
  by (simp add: to_dataset_def Let_def)

lemma keys_to_dataset:
  "map fst (partitions (to_dataset pb df)) = remdups (map (project (partition_indices pb df)) (rows df))"
  by (simp add: to_dataset_def Let_def comp_def)

lemma rows_of_dataset:
  "rows (of_dataset ev (to_dataset pb df)) =
     concat (map (\<lambda>k. map (\<lambda>r. project (data_indices pb df) r @
                                read_key ev (to_dataset pb df) (project (partition_indices pb df) r))
                        (filter (\<lambda>r. project (partition_indices pb df) r = k) (rows df)))
                 (remdups (map (project (partition_indices pb df)) (rows df))))"
proof -
  define ds where "ds = to_dataset pb df"
  have "rows (of_dataset ev ds) =
          concat (map (\<lambda>(k, rs). map (\<lambda>d. d @ read_key ev ds k) rs) (partitions ds))"
    by (simp add: of_dataset_def)
  also have "partitions ds =
      map (\<lambda>k. (k, map (project (data_indices pb df))
                     (filter (\<lambda>r. project (partition_indices pb df) r = k) (rows df))))
          (remdups (map (project (partition_indices pb df)) (rows df)))"
    by (simp add: ds_def to_dataset_def Let_def)
  finally show ?thesis
    unfolding ds_def [symmetric]
    by (simp add: comp_def map_filter_key [where h = "read_key ev ds"])
qed

lemma mset_rows_of_dataset:
  "mset (rows (of_dataset ev (to_dataset pb df))) =
     image_mset (\<lambda>r. project (data_indices pb df) r @
                     read_key ev (to_dataset pb df) (project (partition_indices pb df) r))
       (mset (rows df))"
proof -
  let ?f = "project (partition_indices pb df)"
  let ?g = "\<lambda>r. project (data_indices pb df) r @
                 read_key ev (to_dataset pb df) (project (partition_indices pb df) r)"
  let ?ks = "remdups (map ?f (rows df))"
  have "rows (of_dataset ev (to_dataset pb df)) =
          map ?g (concat (map (\<lambda>k. filter (\<lambda>r. ?f r = k) (rows df)) ?ks))"
    by (simp add: rows_of_dataset map_concat comp_def)
  then have "mset (rows (of_dataset ev (to_dataset pb df))) =
          image_mset ?g (mset (concat (map (\<lambda>k. filter (\<lambda>r. ?f r = k) (rows df)) ?ks)))"
    by simp
  also have "mset (concat (map (\<lambda>k. filter (\<lambda>r. ?f r = k) (rows df)) ?ks)) = mset (rows df)"
    by (rule mset_group) auto
  finally show ?thesis .
qed

lemma set_rows_of_dataset:
  "set (rows (of_dataset ev (to_dataset pb df))) =
     (\<lambda>r. project (data_indices pb df) r @
           read_key ev (to_dataset pb df) (project (partition_indices pb df) r)) ` set (rows df)"
proof -
  have "set (rows (of_dataset ev (to_dataset pb df))) =
          set_mset (mset (rows (of_dataset ev (to_dataset pb df))))"
    by simp
  also have "\<dots> = (\<lambda>r. project (data_indices pb df) r @
           read_key ev (to_dataset pb df) (project (partition_indices pb df) r)) ` set (rows df)"
    by (simp only: mset_rows_of_dataset set_image_mset set_mset_mset)
  finally show ?thesis .
qed

lemma columns_of_dataset:
  "columns (of_dataset ev (to_dataset pb df)) = project (data_indices pb df) (columns df) @ pb"
  by (simp add: of_dataset_def to_dataset_def Let_def)

lemma read_key_unpartitioned [simp]: "read_key ev (to_dataset [] df) k = k"
  by (simp add: read_key_def)

lemma keys_read_as_written_iff:
  "keys_read_as_written ev (to_dataset pb df) \<longleftrightarrow>
     (\<forall>r\<in>set (rows df). read_key ev (to_dataset pb df) (project (partition_indices pb df) r) =
                         project (partition_indices pb df) r)"
  by (simp add: keys_read_as_written_def keys_to_dataset list_all_iff)

lemma process_song_data_Inr:
  assumes "process_song_data ev i o' fs = (Inr (), fs1)"
  obtains cat songs artists where
    "read_json fs (path_join i ''song_data/*/*/*/*.json'') = Inr cat"
    "songs_table cat = Inr songs" "artists_table cat = Inr artists"
    "fs1 = fs(o' @ ''songs_table.parquet'' \<mapsto>
                Parquet (to_dataset [''year'', ''artist_id''] (materialize ev songs)),
              o' @ ''artists_table.parquet'' \<mapsto> Parquet (to_dataset [] (materialize ev artists)))"
  using assms
  by (auto simp: process_song_data_def split: sum.splits dest!: write_parquet_Inr)

lemma process_song_data_twice:
  "process_song_data ev input_data output_data
      (snd (process_song_data ev input_data output_data fs))
     = process_song_data ev input_data output_data fs"
proof -
  let ?src = "path_join input_data ''song_data/*/*/*/*.json''"
  let ?songs = "output_data @ ''songs_table.parquet''"
  let ?artists = "output_data @ ''artists_table.parquet''"
  have ne: "?src \<noteq> ?songs" "?src \<noteq> ?artists" "?songs \<noteq> ?artists"
    by (simp_all add: path_join_def input_data_def output_data_def)
  show ?thesis
  proof (cases "read_json fs ?src")
    case (Inl e)
    then show ?thesis by (simp add: process_song_data_def)
  next
    case df: (Inr df)
    show ?thesis
    proof (cases "songs_table df")
      case (Inl e)
      with df show ?thesis by (simp add: process_song_data_def)
    next
      case songs: (Inr songs)
      show ?thesis
      proof (cases "write_parquet ev songs ?songs [''year'', ''artist_id''] fs")
        case (Inl e)
        with df songs show ?thesis by (simp add: process_song_data_def)
      next
        case w1: (Inr fs1)
        have fs1: "fs1 = fs(?songs \<mapsto>
                     Parquet (to_dataset [''year'', ''artist_id''] (materialize ev songs)))"
          using w1 by (rule write_parquet_Inr)
        have r1: "read_json fs1 ?src = Inr df"
          using df ne by (simp add: fs1 read_json_def)
        have w1': "write_parquet ev songs ?songs [''year'', ''artist_id''] fs1 = Inr fs1"
          using write_parquet_Inr_other [OF w1, of fs1] by (simp add: fs1)
        show ?thesis
        proof (cases "artists_table df")
          case (Inl e)
          with df songs w1 r1 w1' show ?thesis by (simp add: process_song_data_def)
        next
          case artists: (Inr artists)
          show ?thesis
          proof (cases "write_parquet ev artists ?artists [] fs1")
            case (Inl e)
            with df songs w1 r1 w1' artists show ?thesis by (simp add: process_song_data_def)
          next
            case w2: (Inr fs2)
            have fs2: "fs2 = fs1(?artists \<mapsto> Parquet (to_dataset [] (materialize ev artists)))"
              using w2 by (rule write_parquet_Inr)
            have r2: "read_json fs2 ?src = Inr df"
              using r1 ne by (simp add: fs2 read_json_def)
            have w3: "write_parquet ev songs ?songs [''year'', ''artist_id''] fs2 = Inr fs2"
              using write_parquet_Inr_other [OF w1, of fs2] ne
              by (simp add: fs2 fs1 fun_upd_twist)
            have w4: "write_parquet ev artists ?artists [] fs2 = Inr fs2"
              using write_parquet_Inr_other [OF w2, of fs2] by (simp add: fs2)
            from df songs w1 artists w2 r2 w3 w4 show ?thesis
              by (simp add: process_song_data_def)
          qed
        qed
      qed
    qed
  qed
qed

section \<open>The scenario, stage by stage\<close>

lemma scenario_songs_table:
  "songs_table (catalog_of_artist a) =
     Inr \<lparr>columns = [''song_id'', ''title'', ''artist_id'', ''year'', ''duration''],
          rows = [[PStr ''T1'', PStr ''Song A'', PStr a, PInt 2000, PFloat 210]]\<rparr>"
  by (simp add: songs_table_def select_eq catalog_of_artist_def distinct_rows_def project_def)

lemma scenario_artists_table:
  "artists_table (catalog_of_artist a) =
     Inr \<lparr>columns = [''artist_id'', ''artist_name'', ''artist_location'', ''artist_latitude'',
                ''artist_longitude''],
          rows = [[PStr a, PStr ''Band'', PStr ''Town'', PNone, PNone]]\<rparr>"
  by (simp add: artists_table_def select_eq catalog_of_artist_def distinct_rows_def project_def)

lemma scenario_song_stage:
  "process_song_data ev input_data output_data (storage_of_artist a) =
    (Inr (),
     (storage_of_artist a)
      (''s3a://u-de-project4/songs_table.parquet'' \<mapsto> Parquet
          (to_dataset [''year'', ''artist_id'']
            \<lparr>columns = [''song_id'', ''title'', ''artist_id'', ''year'', ''duration''],
             rows = [[PStr ''T1'', PStr ''Song A'', PStr a, PInt 2000, PFloat 210]]\<rparr>),
       ''s3a://u-de-project4/artists_table.parquet'' \<mapsto> Parquet
          (to_dataset []
            \<lparr>columns = [''artist_id'', ''artist_name'', ''artist_location'', ''artist_latitude'',
                ''artist_longitude''],
             rows = [[PStr a, PStr ''Band'', PStr ''Town'', PNone, PNone]]\<rparr>)))"
  by (simp add: process_song_data_def read_json_def path_join_def input_data_def output_data_def
        storage_of_artist_def scenario_songs_table scenario_artists_table write_parquet_def
        materialize_def stored_def)

lemma scenario_song_df:
  "of_dataset ev (to_dataset [''year'', ''artist_id'']
            \<lparr>columns = [''song_id'', ''title'', ''artist_id'', ''year'', ''duration''],
             rows = [[PStr ''T1'', PStr ''Song A'', PStr a, PInt 2000, PFloat 210]]\<rparr>) =
   \<lparr>columns = [''song_id'', ''title'', ''duration'', ''year'', ''artist_id''],
    rows = [[PStr ''T1'', PStr ''Song A'', PFloat 210] @
            read_partition_key ev [[PInt 2000, PStr a]] [PInt 2000, PStr a]]\<rparr>"
  by (simp add: of_dataset_def to_dataset_def partition_indices_def data_indices_def
          project_def Let_def upt_rec read_key_def)

lemma scenario_artist_df:
  "of_dataset ev (to_dataset []
            \<lparr>columns = [''artist_id'', ''artist_name'', ''artist_location'', ''artist_latitude'',
                ''artist_longitude''],
             rows = [[PStr a, PStr ''Band'', PStr ''Town'', PNone, PNone]]\<rparr>) =
   \<lparr>columns = [''artist_id'', ''artist_name'', ''artist_location'', ''artist_latitude'',
                ''artist_longitude''],
    rows = [[PStr a, PStr ''Band'', PStr ''Town'', PNone, PNone]]\<rparr>"
  by (simp add: of_dataset_def to_dataset_def partition_indices_def data_indices_def
          project_def Let_def upt_rec read_key_def)

lemma infer_partition_key_P1:
  "read_partition_key utc [[PInt 2000, PStr ''P1'']] [PInt 2000, PStr ''P1''] =
     [PInt 2000, PStr ''P1'']"
  by (simp add: utc_def infer_partition_key_def digit_text_def upt_rec)

lemma infer_partition_key_007:
  "read_partition_key utc [[PInt 2000, PStr ''007'']] [PInt 2000, PStr ''007''] =
     [PInt 2000, PInt 7]"
  by (simp add: utc_def infer_partition_key_def digit_text_def digits_value_def upt_rec)

lemma scenario_users_table:
  "users_table scenario_events =
     Inr \<lparr>columns = [''userId'', ''firstName'', ''lastName'', ''gender'', ''level''],
          rows = [[PStr ''8'', PStr ''Ann'', PStr ''Lee'', PStr ''F'', PStr ''free'']]\<rparr>"
  by (simp add: users_table_def select_eq scenario_events_def distinct_rows_def project_def)

text \<open>
  The scenario's event in any local zone: the derived columns are those of the local civil
  time \<open>d\<close> of the second 1000000000.
\<close>

lemma scenario_time_columns_at:
  assumes "fromtimestamp ev 1000000000 = Inr d"
  shows "add_time_columns ev scenario_events =
     Inr \<lparr>columns =
        [''ts'', ''userId'', ''level'', ''sessionId'', ''location'',
         ''userAgent'', ''firstName'', ''lastName'', ''gender'', ''song'',
         ''timestamp'', ''start_time'', ''hour'', ''day'', ''week'',
         ''month'', ''year'', ''weekday''],
        rows =
          [[PInt 1000000000000, PStr ''8'', PStr ''free'', PInt 139, PStr ''Town'',
               PStr ''Mozilla'', PStr ''Ann'', PStr ''Lee'', PStr ''F'', PStr ''Song A'',
            PUdf (PStr ''1000000000''), PUdf (PDatetime d), PUdf (PInt (hour d)),
            PUdf (PInt (day d)), PUdf (PStr (day_name ! nat (weekday d))),
            PUdf (PInt (month d)), PUdf (PInt (year d)),
            PUdf (PInt (fst (snd (isocalendar d))))]]\<rparr>"
proof -
  have g: "get_datetime ev (PInt 1000000000000) = Inr (PDatetime d)"
    using assms by (simp add: get_datetime_def py_int_def int_div_1000_def)
  have t: "get_timestamp ev (PInt 1000000000000) = Inr (PStr ''1000000000'')"
    by (simp add: get_timestamp_def py_int_def int_div_1000_def py_str_def)
  show ?thesis
    by (simp add: add_time_columns_def with_udf_column_def and_then_def attr_def resolve_def
      scenario_events_def withColumn_def python_value_def g t get_hour_def get_day_def
      get_week_def get_weekday_def get_month_def get_year_def)
qed

lemma fromtimestamp_scenario_utc:
  "fromtimestamp utc 1000000000 =
     Inr \<lparr>year = 2001, month = 9, day = 9, hour = 1, minute = 46, second = 40\<rparr>"
  by (simp add: fromtimestamp_def local_seconds_def civil_time_def and_then_def utc_def
        ord2ymd_def Let_def DAYS_BEFORE_MONTH_def DAYS_IN_MONTH_def)

lemma scenario_fact_stage_at:
  assumes "fromtimestamp ev 1000000000 = Inr d"
      and "read_partition_key ev [[PInt 2000, PStr a]] [PInt 2000, PStr a] = [y, p]"
  shows "fst (assemble_songplays ev input_data output_data
            (snd (process_song_data ev input_data output_data (storage_of_artist a)))) =
     Inr \<lparr>columns = [''start_time'', ''userId'', ''level'', ''song_id'', ''artist_id'',
                     ''sessionId'', ''location'', ''userAgent''],
          rows = [[PUdf (PDatetime d), PStr ''8'', PStr ''free'', PStr ''T1'', p, PInt 139,
                   PStr ''Town'', PStr ''Mozilla'']]\<rparr>"
  unfolding scenario_song_stage snd_conv
  by (simp add: assemble_songplays_def read_json_def path_join_def
        input_data_def output_data_def storage_of_artist_def scenario_events_def
        write_parquet_def scenario_time_columns_at [OF assms(1), unfolded scenario_events_def]
        scenario_users_table [unfolded scenario_events_def]
        time_table_def select_eq read_parquet_def scenario_song_df assms(2) songplays_table_def
        and_then_def attr_def resolve_def join_def matches_def sql_eq_def project_def)

lemma scenario_fact_stage:
  "fst (assemble_songplays utc input_data output_data
            (snd (process_song_data utc input_data output_data scenario_storage))) =
     Inr \<lparr>columns = [''start_time'', ''userId'', ''level'', ''song_id'', ''artist_id'',
                     ''sessionId'', ''location'', ''userAgent''],
          rows = [[PUdf (PDatetime \<lparr>year = 2001, month = 9, day = 9, hour = 1, minute = 46,
                                    second = 40\<rparr>),
                   PStr ''8'', PStr ''free'', PStr ''T1'', PStr ''P1'', PInt 139, PStr ''Town'',
                   PStr ''Mozilla'']]\<rparr>"
  unfolding scenario_storage_def
  by (rule scenario_fact_stage_at [OF fromtimestamp_scenario_utc infer_partition_key_P1])

lemma numbered_fact_stage:
  "fst (assemble_songplays utc input_data output_data
            (snd (process_song_data utc input_data output_data (storage_of_artist ''007'')))) =
     Inr \<lparr>columns = [''start_time'', ''userId'', ''level'', ''song_id'', ''artist_id'',
                     ''sessionId'', ''location'', ''userAgent''],
          rows = [[PUdf (PDatetime \<lparr>year = 2001, month = 9, day = 9, hour = 1, minute = 46,
                                    second = 40\<rparr>),
                   PStr ''8'', PStr ''free'', PStr ''T1'', PInt 7, PInt 139, PStr ''Town'',
                   PStr ''Mozilla'']]\<rparr>"
  by (rule scenario_fact_stage_at [OF fromtimestamp_scenario_utc infer_partition_key_007])

section \<open>Deduplication in the Catalog Transformer\<close>

lemma mset_remdups_eq: "set xs = set ys \<Longrightarrow> mset (remdups xs) = mset (remdups ys)"
  by (metis distinct_remdups set_eq_iff_mset_eq_distinct set_remdups)

lemma songs_table_Inr:
  assumes "songs_table cat = Inr songs"
  shows "columns songs = [''song_id'', ''title'', ''artist_id'', ''year'', ''duration'']"
    and "set (rows songs) =
           project (map (index_of (columns cat))
                      [''song_id'', ''title'', ''artist_id'', ''year'', ''duration'']) ` set (rows cat)"
    and "distinct (rows songs)"
  using assms
  by (auto simp: songs_table_def select_eq distinct_rows_def split: if_splits)

lemma artists_table_Inr:
  assumes "artists_table cat = Inr artists"
  shows "columns artists = [''artist_id'', ''artist_name'', ''artist_location'',
                            ''artist_latitude'', ''artist_longitude'']"
    and "set (rows artists) =
           project (map (index_of (columns cat))
                      [''artist_id'', ''artist_name'', ''artist_location'', ''artist_latitude'',
                       ''artist_longitude'']) ` set (rows cat)"
    and "distinct (rows artists)"
  using assms
  by (auto simp: artists_table_def select_eq distinct_rows_def split: if_splits)

lemma songs_table_appended:
  assumes "set dups \<subseteq> set (rows df)"
  shows "map_sum id (\<lambda>t. (columns t, mset (rows t))) (songs_table (df\<lparr>rows := rows df @ dups\<rparr>)) =
         map_sum id (\<lambda>t. (columns t, mset (rows t))) (songs_table df)"
proof -
  have "set (map f (rows df @ dups)) = set (map f (rows df))" for f :: "cell list \<Rightarrow> cell list"
    using assms by auto
  then have "mset (remdups (map f (rows df @ dups))) = mset (remdups (map f (rows df)))"
    for f :: "cell list \<Rightarrow> cell list"
    by (rule mset_remdups_eq)
  then show ?thesis
    by (simp add: songs_table_def select_eq distinct_rows_def)
qed

lemma artists_table_appended:
  assumes "set dups \<subseteq> set (rows df)"
  shows "map_sum id (\<lambda>t. (columns t, mset (rows t))) (artists_table (df\<lparr>rows := rows df @ dups\<rparr>)) =
         map_sum id (\<lambda>t. (columns t, mset (rows t))) (artists_table df)"
proof -
  have "set (map f (rows df @ dups)) = set (map f (rows df))" for f :: "cell list \<Rightarrow> cell list"
    using assms by auto
  then have "mset (remdups (map f (rows df @ dups))) = mset (remdups (map f (rows df)))"
    for f :: "cell list \<Rightarrow> cell list"
    by (rule mset_remdups_eq)
  then show ?thesis
    by (simp add: artists_table_def select_eq distinct_rows_def)
qed

lemma process_song_data_writes:
  assumes "process_song_data ev i o' fs = (Inr (), fs1)"
  shows "\<exists>cat songs artists.
           read_json fs (path_join i ''song_data/*/*/*/*.json'') = Inr cat \<and>
           songs_table cat = Inr songs \<and> artists_table cat = Inr artists \<and>
           fs1 = fs(o' @ ''songs_table.parquet'' \<mapsto>
                      Parquet (to_dataset [''year'', ''artist_id''] (materialize ev songs)),
                    o' @ ''artists_table.parquet'' \<mapsto>
                      Parquet (to_dataset [] (materialize ev artists)))"
  using assms by (rule process_song_data_Inr) blast

text \<open>
  Claim C5. The songs and artists tables of a catalog to which copies of its own rows have
  been appended have the same columns and, row for row with multiplicity, the same rows as
  the tables of the catalog itself, and fail where they fail. Each table holds every
  projected catalog row, and each of them once. A run of \<^verbatim>\<open>process_song_data\<close> that
  returns has replaced what was stored for the two tables by exactly these tables, and left
  everything else in place; a second run on the storage that the first one left gives the
  outcome and the storage of the first.
\<close>

theorem catalog_dedup_idempotent:
  assumes "set dups \<subseteq> set (rows df)"
  shows "map_sum id (\<lambda>t. (columns t, mset (rows t))) (songs_table (df\<lparr>rows := rows df @ dups\<rparr>)) =
           map_sum id (\<lambda>t. (columns t, mset (rows t))) (songs_table df) \<and>
         map_sum id (\<lambda>t. (columns t, mset (rows t)))
             (artists_table (df\<lparr>rows := rows df @ dups\<rparr>)) =
           map_sum id (\<lambda>t. (columns t, mset (rows t))) (artists_table df) \<and>
         (\<forall>t. songs_table df = Inr t \<longrightarrow>
            distinct (rows t) \<and>
            set (rows t) =
              project (map (index_of (columns df))
                         [''song_id'', ''title'', ''artist_id'', ''year'', ''duration''])
                ` set (rows df)) \<and>
         (\<forall>t. artists_table df = Inr t \<longrightarrow>
            distinct (rows t) \<and>
            set (rows t) =
              project (map (index_of (columns df))
                         [''artist_id'', ''artist_name'', ''artist_location'',
                          ''artist_latitude'', ''artist_longitude''])
                ` set (rows df)) \<and>
         (\<forall>fs1. process_song_data ev input_data output_data fs = (Inr (), fs1) \<longrightarrow>
            (\<exists>cat songs artists.
               read_json fs (path_join input_data ''song_data/*/*/*/*.json'') = Inr cat \<and>
               songs_table cat = Inr songs \<and> artists_table cat = Inr artists \<and>
               fs1 = fs(output_data @ ''songs_table.parquet'' \<mapsto>
                          Parquet (to_dataset [''year'', ''artist_id''] (materialize ev songs)),
                        output_data @ ''artists_table.parquet'' \<mapsto>
                          Parquet (to_dataset [] (materialize ev artists))))) \<and>
         process_song_data ev input_data output_data
             (snd (process_song_data ev input_data output_data fs)) =
           process_song_data ev input_data output_data fs"
proof (intro conjI allI impI)
  show "map_sum id (\<lambda>t. (columns t, mset (rows t))) (songs_table (df\<lparr>rows := rows df @ dups\<rparr>)) =
           map_sum id (\<lambda>t. (columns t, mset (rows t))) (songs_table df)"
    using assms by (rule songs_table_appended)
  show "map_sum id (\<lambda>t. (columns t, mset (rows t)))
             (artists_table (df\<lparr>rows := rows df @ dups\<rparr>)) =
           map_sum id (\<lambda>t. (columns t, mset (rows t))) (artists_table df)"
    using assms by (rule artists_table_appended)
  show "process_song_data ev input_data output_data
             (snd (process_song_data ev input_data output_data fs)) =
           process_song_data ev input_data output_data fs"
    by (rule process_song_data_twice)
next
  fix t assume "songs_table df = Inr t"
  then show "distinct (rows t)"
    and "set (rows t) =
              project (map (index_of (columns df))
                         [''song_id'', ''title'', ''artist_id'', ''year'', ''duration''])
                ` set (rows df)"
    by (rule songs_table_Inr(3), rule songs_table_Inr(2))
next
  fix t assume "artists_table df = Inr t"
  then show "distinct (rows t)"
    and "set (rows t) =
              project (map (index_of (columns df))
                         [''artist_id'', ''artist_name'', ''artist_location'',
                          ''artist_latitude'', ''artist_longitude''])
                ` set (rows df)"
    by (rule artists_table_Inr(3), rule artists_table_Inr(2))
next
  fix fs1 assume "process_song_data ev input_data output_data fs = (Inr (), fs1)"
  then show "\<exists>cat songs artists.
               read_json fs (path_join input_data ''song_data/*/*/*/*.json'') = Inr cat \<and>
               songs_table cat = Inr songs \<and> artists_table cat = Inr artists \<and>
               fs1 = fs(output_data @ ''songs_table.parquet'' \<mapsto>
                          Parquet (to_dataset [''year'', ''artist_id''] (materialize ev songs)),
                        output_data @ ''artists_table.parquet'' \<mapsto>
                          Parquet (to_dataset [] (materialize ev artists)))"
    by (rule process_song_data_writes)
qed

theorem catalog_dedup_idempotent_witness:
  "set [rows scenario_catalog ! 0] \<subseteq> set (rows scenario_catalog) \<and>
   map_sum id (\<lambda>t. (columns t, mset (rows t)))
       (songs_table (scenario_catalog\<lparr>rows := rows scenario_catalog @ [rows scenario_catalog ! 0]\<rparr>)) =
     Inr ([''song_id'', ''title'', ''artist_id'', ''year'', ''duration''],
          {#[PStr ''T1'', PStr ''Song A'', PStr ''P1'', PInt 2000, PFloat 210]#}) \<and>
   map_sum id (\<lambda>t. (columns t, mset (rows t)))
       (artists_table (scenario_catalog\<lparr>rows := rows scenario_catalog @ [rows scenario_catalog ! 0]\<rparr>)) =
     Inr ([''artist_id'', ''artist_name'', ''artist_location'', ''artist_latitude'',
           ''artist_longitude''],
          {#[PStr ''P1'', PStr ''Band'', PStr ''Town'', PNone, PNone]#}) \<and>
   length (rows scenario_catalog) = 2 \<and>
   songs_table scenario_catalog =
     Inr \<lparr>columns = [''song_id'', ''title'', ''artist_id'', ''year'', ''duration''],
          rows = [[PStr ''T1'', PStr ''Song A'', PStr ''P1'', PInt 2000, PFloat 210]]\<rparr> \<and>
   fst (process_song_data utc input_data output_data scenario_storage) = Inr () \<and>
   process_song_data utc input_data output_data
       (snd (process_song_data utc input_data output_data scenario_storage)) =
     process_song_data utc input_data output_data scenario_storage"
proof -
  have h: "set [rows scenario_catalog ! 0] \<subseteq> set (rows scenario_catalog)"
    by (simp add: scenario_catalog_def catalog_of_artist_def)
  have n: "length (rows scenario_catalog) = 2"
    by (simp add: scenario_catalog_def catalog_of_artist_def)
  have v: "songs_table scenario_catalog =
     Inr \<lparr>columns = [''song_id'', ''title'', ''artist_id'', ''year'', ''duration''],
          rows = [[PStr ''T1'', PStr ''Song A'', PStr ''P1'', PInt 2000, PFloat 210]]\<rparr>"
    by (simp add: scenario_catalog_def scenario_songs_table)
  have w: "artists_table scenario_catalog =
     Inr \<lparr>columns = [''artist_id'', ''artist_name'', ''artist_location'', ''artist_latitude'',
                ''artist_longitude''],
          rows = [[PStr ''P1'', PStr ''Band'', PStr ''Town'', PNone, PNone]]\<rparr>"
    by (simp add: scenario_catalog_def scenario_artists_table)
  have s: "fst (process_song_data utc input_data output_data scenario_storage) = Inr ()"
    by (simp add: scenario_storage_def scenario_song_stage)
  from catalog_dedup_idempotent [OF h, of utc scenario_storage] h n v w s show ?thesis
    by simp
qed

section \<open>Overwriting in the Sink Writer\<close>

text \<open>
  Claim C9. When two frames are written one after the other to the same path, the storage is
  the one that the second write alone would have left; what is read back there has the
  columns of the second frame, partition columns last, and row for row the rows of the second
  frame as stored, each with its partition values as the reader types them, so that nothing
  of the first frame remains. Where the reader hands the partition values back as written,
  these are the stored rows of the second frame themselves, partition columns moved last.
\<close>

theorem sink_writer_full_refresh:
  assumes "write_parquet ev df1 path pb1 fs = Inr fs1"
      and "write_parquet ev df2 path pb2 fs1 = Inr fs2"
  shows "fs2 = fs(path \<mapsto> Parquet (to_dataset pb2 (materialize ev df2))) \<and>
         write_parquet ev df2 path pb2 fs = Inr fs2 \<and>
         read_parquet ev fs2 path = Inr (of_dataset ev (to_dataset pb2 (materialize ev df2))) \<and>
         columns (of_dataset ev (to_dataset pb2 (materialize ev df2))) =
           project (data_indices pb2 df2) (columns df2) @ pb2 \<and>
         mset (rows (of_dataset ev (to_dataset pb2 (materialize ev df2)))) =
           image_mset (\<lambda>r. project (data_indices pb2 df2) r @
                            read_key ev (to_dataset pb2 (materialize ev df2))
                              (project (partition_indices pb2 df2) r))
             (mset (map (map (stored ev)) (rows df2))) \<and>
         (keys_read_as_written ev (to_dataset pb2 (materialize ev df2)) \<longrightarrow>
            mset (rows (of_dataset ev (to_dataset pb2 (materialize ev df2)))) =
              image_mset (\<lambda>r. project (data_indices pb2 df2) r @
                               project (partition_indices pb2 df2) r)
                (mset (map (map (stored ev)) (rows df2))))"
proof -
  define ds where "ds = to_dataset pb2 (materialize ev df2)"
  have "fs1 = fs(path \<mapsto> Parquet (to_dataset pb1 (materialize ev df1)))"
    using assms(1) by (rule write_parquet_Inr)
  moreover have "fs2 = fs1(path \<mapsto> Parquet ds)"
    unfolding ds_def using assms(2) by (rule write_parquet_Inr)
  ultimately have fs2: "fs2 = fs(path \<mapsto> Parquet ds)"
    by simp
  have alone: "write_parquet ev df2 path pb2 fs = Inr fs2"
    using write_parquet_Inr_other [OF assms(2), of fs] by (simp add: fs2 ds_def)
  have rd: "read_parquet ev fs2 path = Inr (of_dataset ev ds)"
    by (simp add: fs2 read_parquet_def)
  have cols: "columns (of_dataset ev ds) = project (data_indices pb2 df2) (columns df2) @ pb2"
    by (simp add: ds_def columns_of_dataset)
  have ms: "mset (rows (of_dataset ev ds)) =
           image_mset (\<lambda>r. project (data_indices pb2 df2) r @
                            read_key ev ds (project (partition_indices pb2 df2) r))
             (mset (map (map (stored ev)) (rows df2)))"
    unfolding ds_def by (simp add: mset_rows_of_dataset)
  have plain: "mset (rows (of_dataset ev ds)) =
              image_mset (\<lambda>r. project (data_indices pb2 df2) r @
                               project (partition_indices pb2 df2) r)
                (mset (map (map (stored ev)) (rows df2)))"
    if "keys_read_as_written ev ds"
  proof -
    from that have "\<forall>r\<in>set (map (map (stored ev)) (rows df2)).
        read_key ev ds (project (partition_indices pb2 df2) r) =
          project (partition_indices pb2 df2) r"
      unfolding ds_def keys_read_as_written_iff by simp
    then show ?thesis
      unfolding ms by (intro image_mset_cong) auto
  qed
  from fs2 alone rd cols ms plain show ?thesis
    unfolding ds_def by blast
qed

theorem sink_writer_full_refresh_witness:
  "write_parquet utc \<lparr>columns = [''year'', ''song_id''], rows = [[PInt 2000, PStr ''T1'']]\<rparr>
      ''out/songs_table.parquet'' [''year''] Map.empty =
     Inr [''out/songs_table.parquet'' \<mapsto>
            Parquet (to_dataset [''year'']
              \<lparr>columns = [''year'', ''song_id''], rows = [[PInt 2000, PStr ''T1'']]\<rparr>)] \<and>
   write_parquet utc
      \<lparr>columns = [''year'', ''song_id''],
       rows = [[PInt 2001, PStr ''T2''], [PInt 1999, PStr ''T3''], [PInt 2001, PStr ''T4'']]\<rparr>
      ''out/songs_table.parquet'' [''year'']
      [''out/songs_table.parquet'' \<mapsto>
            Parquet (to_dataset [''year'']
              \<lparr>columns = [''year'', ''song_id''], rows = [[PInt 2000, PStr ''T1'']]\<rparr>)] =
     Inr [''out/songs_table.parquet'' \<mapsto>
            Parquet (to_dataset [''year'']
              \<lparr>columns = [''year'', ''song_id''],
               rows = [[PInt 2001, PStr ''T2''], [PInt 1999, PStr ''T3''],
                       [PInt 2001, PStr ''T4'']]\<rparr>)] \<and>
   read_parquet utc
      [''out/songs_table.parquet'' \<mapsto>
            Parquet (to_dataset [''year'']
              \<lparr>columns = [''year'', ''song_id''],
               rows = [[PInt 2001, PStr ''T2''], [PInt 1999, PStr ''T3''],
                       [PInt 2001, PStr ''T4'']]\<rparr>)]
      ''out/songs_table.parquet'' =
     Inr \<lparr>columns = [''song_id'', ''year''],
          rows = [[PStr ''T3'', PInt 1999], [PStr ''T2'', PInt 2001], [PStr ''T4'', PInt 2001]]\<rparr>"
proof -
  let ?p = "''out/songs_table.parquet''"
  let ?a = "\<lparr>columns = [''year'', ''song_id''], rows = [[PInt 2000, PStr ''T1'']]\<rparr>"
  let ?b = "\<lparr>columns = [''year'', ''song_id''],
       rows = [[PInt 2001, PStr ''T2''], [PInt 1999, PStr ''T3''], [PInt 2001, PStr ''T4'']]\<rparr>"
  have ma: "materialize utc ?a = ?a" and mb: "materialize utc ?b = ?b"
    by (simp_all add: materialize_def stored_def)
  have w1: "write_parquet utc ?a ?p [''year''] Map.empty =
              Inr [?p \<mapsto> Parquet (to_dataset [''year''] ?a)]"
    by (simp add: write_parquet_def ma)
  have w2: "write_parquet utc ?b ?p [''year''] [?p \<mapsto> Parquet (to_dataset [''year''] ?a)] =
              Inr [?p \<mapsto> Parquet (to_dataset [''year''] ?b)]"
    by (simp add: write_parquet_def mb)
  have v: "of_dataset utc (to_dataset [''year''] ?b) =
     \<lparr>columns = [''song_id'', ''year''],
          rows = [[PStr ''T3'', PInt 1999], [PStr ''T2'', PInt 2001], [PStr ''T4'', PInt 2001]]\<rparr>"
    by (simp add: of_dataset_def to_dataset_def partition_indices_def data_indices_def
          project_def Let_def upt_rec read_key_def utc_def infer_partition_key_def
          digit_text_def)
  from sink_writer_full_refresh [OF w1 w2] w1 w2 v show ?thesis
    by (simp add: mb)
qed

section \<open>The fact frame and its write\<close>

lemma songplays_table_columns:
  "songplays_table song_df df = Inr sp \<Longrightarrow>
   columns sp = [''start_time'', ''userId'', ''level'', ''song_id'', ''artist_id'', ''sessionId'',
                 ''location'', ''userAgent'']"
  by (auto simp: songplays_table_def and_then_Inr select_eq split: if_splits)

lemma assemble_songplays_Inr:
  assumes "assemble_songplays ev i o' fs = (Inr sp, fs2)"
  obtains df df' song_df where
    "read_json fs (path_join i ''log_data/*/*/*.json'') = Inr df"
    "add_time_columns ev df = Inr df'"
    "read_parquet ev fs2 (o' @ ''songs_table.parquet'') = Inr song_df"
    "songplays_table song_df df' = Inr sp"
  using assms
  by (auto simp: assemble_songplays_def split: sum.splits)

lemma assemble_songplays_storage:
  assumes "assemble_songplays ev i o' fs = (r, fs2)"
  shows "\<forall>p. p \<noteq> o' @ ''users_table.parquet'' \<and> p \<noteq> o' @ ''time_table.parquet'' \<longrightarrow>
             fs2 p = fs p"
  using assms
  by (auto simp: assemble_songplays_def split: sum.splits dest!: write_parquet_Inr)

lemma process_song_data_storage:
  assumes "process_song_data ev i o' fs = (r, fs1)"
  shows "\<forall>p. p \<noteq> o' @ ''songs_table.parquet'' \<and> p \<noteq> o' @ ''artists_table.parquet'' \<longrightarrow>
             fs1 p = fs p"
  using assms
  by (auto simp: process_song_data_def split: sum.splits dest!: write_parquet_Inr)

lemma write_songplays_rejected:
  assumes "songplays_table song_df df = Inr sp"
  shows "write_parquet ev sp p [''year'', ''month''] fs = Inl AnalysisException"
  using songplays_table_columns [OF assms] by (simp add: write_parquet_def)

text \<open>
  No input lets \<^verbatim>\<open>process_log_data\<close>, or \<^verbatim>\<open>main\<close>, run to its end, and neither ever
  stores anything at the path of the fact table.
\<close>

lemma process_log_data_outcome:
  "fst (process_log_data ev i o' fs) \<noteq> Inr () \<and>
   snd (process_log_data ev i o' fs) = snd (assemble_songplays ev i o' fs)"
proof (cases "assemble_songplays ev i o' fs")
  case (Pair r fs2)
  show ?thesis
  proof (cases r)
    case (Inl e)
    with Pair show ?thesis by (simp add: process_log_data_def)
  next
    case (Inr sp)
    with Pair obtain song_df df' where "songplays_table song_df df' = Inr sp"
      by (auto elim: assemble_songplays_Inr)
    then have "write_parquet ev sp (o' @ ''songplays_table.parquet'') [''year'', ''month''] fs2 =
           Inl AnalysisException"
      by (rule write_songplays_rejected)
    with Pair Inr show ?thesis by (simp add: process_log_data_def)
  qed
qed

lemma process_log_data_never_succeeds: "fst (process_log_data ev i o' fs) \<noteq> Inr ()"
  using process_log_data_outcome by blast

lemma main_never_succeeds: "fst (main ev fs) \<noteq> Inr ()"
  by (cases "process_song_data ev input_data output_data fs")
     (auto simp: main_def process_log_data_never_succeeds split: sum.splits)

lemma main_leaves_fact_path:
  "snd (main ev fs) (output_data @ ''songplays_table.parquet'') =
     fs (output_data @ ''songplays_table.parquet'')"
proof -
  let ?p = "output_data @ ''songplays_table.parquet''"
  obtain r fs1 where s: "process_song_data ev input_data output_data fs = (r, fs1)"
    by (cases "process_song_data ev input_data output_data fs")
  have 1: "fs1 ?p = fs ?p"
    using process_song_data_storage [OF s] by simp
  show ?thesis
  proof (cases r)
    case (Inl e)
    with s 1 show ?thesis by (simp add: main_def)
  next
    case (Inr u)
    obtain r2 fs2 where a: "assemble_songplays ev input_data output_data fs1 = (r2, fs2)"
      by (cases "assemble_songplays ev input_data output_data fs1")
    have "fs2 ?p = fs1 ?p"
      using assemble_songplays_storage [OF a] by simp
    moreover have "snd (main ev fs) = fs2"
      using s Inr a process_log_data_outcome [of ev input_data output_data fs1]
      by (simp add: main_def)
    ultimately show ?thesis
      using 1 by simp
  qed
qed

section \<open>Columns of the fact table\<close>

text \<open>
  Claim C2. Whenever \<^verbatim>\<open>process_log_data\<close> gets as far as the fact frame, that frame has
  exactly the eight projected columns and neither \<^verbatim>\<open>year\<close> nor \<^verbatim>\<open>month\<close>; the write
  partitioned by \<^verbatim>\<open>year\<close> and \<^verbatim>\<open>month\<close> is therefore rejected, and
  \<^verbatim>\<open>process_log_data\<close> ends in that error with the storage as it was before the write.
\<close>

theorem songplays_write_rejected:
  assumes "assemble_songplays ev i o' fs = (Inr sp, fs2)"
  shows "columns sp = [''start_time'', ''userId'', ''level'', ''song_id'', ''artist_id'',
                       ''sessionId'', ''location'', ''userAgent''] \<and>
         ''year'' \<notin> set (columns sp) \<and> ''month'' \<notin> set (columns sp) \<and>
         write_parquet ev sp (o' @ ''songplays_table.parquet'') [''year'', ''month''] fs2 =
           Inl AnalysisException \<and>
         process_log_data ev i o' fs = (Inl AnalysisException, fs2)"
proof -
  from assms obtain song_df df' where sp: "songplays_table song_df df' = Inr sp"
    by (rule assemble_songplays_Inr)
  then have c: "columns sp = [''start_time'', ''userId'', ''level'', ''song_id'', ''artist_id'',
                       ''sessionId'', ''location'', ''userAgent'']"
    by (rule songplays_table_columns)
  have w: "write_parquet ev sp (o' @ ''songplays_table.parquet'') [''year'', ''month''] fs2 =
           Inl AnalysisException"
    using sp by (rule write_songplays_rejected)
  with assms c show ?thesis
    by (simp add: process_log_data_def)
qed

theorem songplays_write_rejected_witness:
  "fst (assemble_songplays utc input_data output_data
          (snd (process_song_data utc input_data output_data scenario_storage))) =
     Inr \<lparr>columns = [''start_time'', ''userId'', ''level'', ''song_id'', ''artist_id'',
                     ''sessionId'', ''location'', ''userAgent''],
          rows = [[PUdf (PDatetime \<lparr>year = 2001, month = 9, day = 9, hour = 1, minute = 46,
                                    second = 40\<rparr>),
                   PStr ''8'', PStr ''free'', PStr ''T1'', PStr ''P1'', PInt 139, PStr ''Town'',
                   PStr ''Mozilla'']]\<rparr> \<and>
   fst (process_log_data utc input_data output_data
          (snd (process_song_data utc input_data output_data scenario_storage))) =
     Inl AnalysisException \<and>
   fst (main utc scenario_storage) = Inl AnalysisException"
proof -
  let ?fs1 = "snd (process_song_data utc input_data output_data scenario_storage)"
  note a = scenario_fact_stage
  note t = songplays_write_rejected [OF fst_eq_pair [OF a]]
  have m: "main utc scenario_storage = process_log_data utc input_data output_data ?fs1"
    by (simp add: main_def scenario_storage_def scenario_song_stage)
  from a t m show ?thesis
    by simp
qed

section \<open>The week and weekday columns\<close>

lemma stored_plain:
  "stored ev PNone = PNone" "stored ev (PInt n) = PInt n" "stored ev (PStr s) = PStr s"
  "stored ev (PFloat x) = PFloat x" "stored ev (PDatetime d) = PDatetime d"
  by (simp_all add: stored_def)

lemma stored_derived:
  "stored ev (PUdf PNone) = PNone" "stored ev (PUdf (PInt n)) = PStr (py_str n)"
  "stored ev (PUdf (PStr s)) = PStr s"
  "stored ev (PUdf (PDatetime d)) = PStr (object_text ev (PDatetime d))"
  by (simp_all add: stored_def)

text \<open>
  Claim C1 against the code. The scenario's event falls on Sunday 2001-09-09, in ISO week 36.
  The time table has the text \<^verbatim>\<open>Sunday\<close> in its \<^verbatim>\<open>week\<close> column and the number 36 in its
  \<^verbatim>\<open>weekday\<close> column, stored as the texts \<^verbatim>\<open>Sunday\<close> and \<^verbatim>\<open>36\<close>: the column \<^verbatim>\<open>week\<close> is
  filled by \<^verbatim>\<open>get_week\<close>, whose lambda takes the day name, and \<^verbatim>\<open>weekday\<close> by
  \<^verbatim>\<open>get_weekday\<close>, whose lambda takes the ISO week.
\<close>

theorem week_and_weekday_swapped:
  "and_then (add_time_columns utc scenario_events) time_table =
     Inr \<lparr>columns = [''start_time'', ''hour'', ''day'', ''week'', ''month'', ''year'', ''weekday''],
          rows = [[PUdf (PDatetime \<lparr>year = 2001, month = 9, day = 9, hour = 1, minute = 46,
                                    second = 40\<rparr>),
                   PUdf (PInt 1), PUdf (PInt 9), PUdf (PStr ''Sunday''), PUdf (PInt 9),
                   PUdf (PInt 2001), PUdf (PInt 36)]]\<rparr> \<and>
   map_sum id (\<lambda>t. map (\<lambda>r. (cell_of t ''week'' r, cell_of t ''weekday'' r))
                       (rows (materialize utc t)))
       (and_then (add_time_columns utc scenario_events) time_table) =
     Inr [(PStr ''Sunday'', PStr ''36'')] \<and>
   isocalendar \<lparr>year = 2001, month = 9, day = 9, hour = 1, minute = 46, second = 40\<rparr> =
     (2001, 36, 7) \<and>
   day_name ! nat (weekday \<lparr>year = 2001, month = 9, day = 9, hour = 1, minute = 46,
                             second = 40\<rparr>) = ''Sunday''"
proof -
  have iso:
    "isocalendar \<lparr>year = 2001, month = 9, day = 9, hour = 1, minute = 46, second = 40\<rparr> =
       (2001, 36, 7)"
    by (simp add: isocalendar_def isoweek1monday_def ymd2ord_def days_before_year_def
          days_before_month_def is_leap_def DAYS_BEFORE_MONTH_def Let_def)
  have name:
    "day_name ! nat (weekday \<lparr>year = 2001, month = 9, day = 9, hour = 1, minute = 46,
                               second = 40\<rparr>) = ''Sunday''"
    by (simp add: weekday_def ymd2ord_def days_before_year_def days_before_month_def
          is_leap_def DAYS_BEFORE_MONTH_def day_name_def)
  have tt: "and_then (add_time_columns utc scenario_events) time_table =
     Inr \<lparr>columns = [''start_time'', ''hour'', ''day'', ''week'', ''month'', ''year'', ''weekday''],
          rows = [[PUdf (PDatetime \<lparr>year = 2001, month = 9, day = 9, hour = 1, minute = 46,
                                    second = 40\<rparr>),
                   PUdf (PInt 1), PUdf (PInt 9), PUdf (PStr ''Sunday''), PUdf (PInt 9),
                   PUdf (PInt 2001), PUdf (PInt 36)]]\<rparr>"
    by (simp add: scenario_time_columns_at [OF fromtimestamp_scenario_utc] and_then_def
          time_table_def select_eq project_def iso name)
  have "map_sum id (\<lambda>t. map (\<lambda>r. (cell_of t ''week'' r, cell_of t ''weekday'' r))
                       (rows (materialize utc t)))
       (and_then (add_time_columns utc scenario_events) time_table) =
     Inr [(PStr ''Sunday'', PStr ''36'')]"
    unfolding tt by (simp add: cell_of_def stored_derived py_str_def)
  with tt iso name show ?thesis
    by simp
qed

section \<open>The example of the specification\<close>

text \<open>
  Claim C3 against the code. On the scenario's storage, with UTC as the local zone, \<^verbatim>\<open>main\<close>
  ends in the engine's \<^verbatim>\<open>AnalysisException\<close> and no fact table stands at its path
  afterwards; on no storage and in no zone does \<^verbatim>\<open>main\<close> return normally or store
  anything at that path. The fact frame that the run holds in memory when the write is
  rejected has the one row that the specification expects, with the \<^verbatim>\<open>song_id\<close> \<^verbatim>\<open>T1\<close>
  and the Python date-time 2001-09-09 01:46:40 as its \<^verbatim>\<open>start_time\<close>; what the engine
  stores for such a cell is the text it gives the object, not an instant.
\<close>

theorem scenario_no_fact_table:
  "fst (main utc scenario_storage) = Inl AnalysisException \<and>
   snd (main utc scenario_storage) (output_data @ ''songplays_table.parquet'') = None \<and>
   (\<exists>e. fst (main ev fs) = Inl e) \<and>
   snd (main ev fs) (output_data @ ''songplays_table.parquet'') =
     fs (output_data @ ''songplays_table.parquet'') \<and>
   fst (assemble_songplays utc input_data output_data
          (snd (process_song_data utc input_data output_data scenario_storage))) =
     Inr \<lparr>columns = [''start_time'', ''userId'', ''level'', ''song_id'', ''artist_id'',
                     ''sessionId'', ''location'', ''userAgent''],
          rows = [[PUdf (PDatetime \<lparr>year = 2001, month = 9, day = 9, hour = 1, minute = 46,
                                    second = 40\<rparr>),
                   PStr ''8'', PStr ''free'', PStr ''T1'', PStr ''P1'', PInt 139, PStr ''Town'',
                   PStr ''Mozilla'']]\<rparr> \<and>
   stored ev (PUdf (PDatetime d)) = PStr (object_text ev (PDatetime d))"
proof -
  let ?fs1 = "snd (process_song_data utc input_data output_data scenario_storage)"
  let ?p = "output_data @ ''songplays_table.parquet''"
  have m: "main utc scenario_storage = process_log_data utc input_data output_data ?fs1"
    by (simp add: main_def scenario_storage_def scenario_song_stage)
  have "process_log_data utc input_data output_data ?fs1 =
          (Inl AnalysisException,
           snd (assemble_songplays utc input_data output_data ?fs1))"
    using scenario_fact_stage
    by (cases "assemble_songplays utc input_data output_data ?fs1")
       (auto simp: process_log_data_def write_parquet_def)
  with m have 1: "fst (main utc scenario_storage) = Inl AnalysisException"
    by simp
  have "scenario_storage ?p = None"
    by (simp add: scenario_storage_def storage_of_artist_def output_data_def)
  then have 2: "snd (main utc scenario_storage) ?p = None"
    by (simp only: main_leaves_fact_path)
  have 3: "\<exists>e. fst (main ev fs) = Inl e"
    using main_never_succeeds [of ev fs] by (cases "fst (main ev fs)") auto
  from 1 2 3 scenario_fact_stage show ?thesis
    by (simp add: main_leaves_fact_path stored_derived)
qed

section \<open>The inner join, event row by event row\<close>

lemma attr_columns: "columns df' = columns df \<Longrightarrow> attr df' c = attr df c"
  by (simp add: attr_def)

lemma attr_Inr: "attr df c = Inr i \<Longrightarrow> i = index_of (columns df) c \<and> c \<in> set (columns df)"
  by (auto simp: attr_def resolve_def split: if_splits)

lemma select_same_columns:
  assumes "select cs df = Inr t" and "columns df' = columns df"
  shows "select cs df' =
           Inr \<lparr>columns = cs, rows = map (project (map (index_of (columns df)) cs)) (rows df')\<rparr>"
  using assms by (simp add: select_eq split: if_splits)

lemma songplays_table_rows:
  assumes "songplays_table song_df df = Inr sp" and "columns df' = columns df"
  shows "songplays_table song_df df' =
     Inr \<lparr>columns = [''start_time'', ''userId'', ''level'', ''song_id'', ''artist_id'',
                     ''sessionId'', ''location'', ''userAgent''],
          rows = map (project (map (index_of (columns df @ columns song_df))
                         [''start_time'', ''userId'', ''level'', ''song_id'', ''artist_id'',
                          ''sessionId'', ''location'', ''userAgent'']))
                   (concat (map (matches song_df (index_of (columns song_df) ''title'')
                                   (index_of (columns df) ''song'')) (rows df')))\<rparr>"
proof -
  define cs where "cs = [''start_time'', ''userId'', ''level'', ''song_id'', ''artist_id'',
                     ''sessionId'', ''location'', ''userAgent'']"
  have def: "songplays_table song_df d =
     and_then (attr song_df ''title'') (\<lambda>t.
     and_then (attr d ''song'') (\<lambda>s. select cs (join d song_df t s)))" for d
    by (simp only: songplays_table_def cs_def)
  from assms(1) obtain t s where
    t: "attr song_df ''title'' = Inr t" and s: "attr df ''song'' = Inr s" and
    sel: "select cs (join df song_df t s) = Inr sp"
    unfolding def by (auto simp: and_then_Inr)
  have t': "t = index_of (columns song_df) ''title''" and s': "s = index_of (columns df) ''song''"
    using attr_Inr [OF t] attr_Inr [OF s] by simp_all
  have s2: "attr df' ''song'' = Inr s"
    using s attr_columns [OF assms(2), of "''song''"] by simp
  have "columns (join df' song_df t s) = columns (join df song_df t s)"
    using assms(2) by (simp add: join_def)
  from select_same_columns [OF sel this]
  have "select cs (join df' song_df t s) =
          Inr \<lparr>columns = cs,
               rows = map (project (map (index_of (columns df @ columns song_df)) cs))
                        (concat (map (matches song_df t s) (rows df')))\<rparr>"
    by (simp add: join_def)
  then have "songplays_table song_df df' =
          Inr \<lparr>columns = cs,
               rows = map (project (map (index_of (columns df @ columns song_df)) cs))
                        (concat (map (matches song_df t s) (rows df')))\<rparr>"
    unfolding def by (simp add: t s2 and_then_def)
  then show ?thesis
    unfolding cs_def t' s' .
qed

lemma fact_rows_of_eq:
  assumes "songplays_table song_df df = Inr sp"
  shows "fact_rows_of song_df df a =
           map (project (map (index_of (columns df @ columns song_df))
                         [''start_time'', ''userId'', ''level'', ''song_id'', ''artist_id'',
                          ''sessionId'', ''location'', ''userAgent'']))
               (matches song_df (index_of (columns song_df) ''title'')
                                   (index_of (columns df) ''song'') a)"
  using songplays_table_rows [OF assms, of "df\<lparr>rows := [a]\<rparr>"]
  by (simp add: fact_rows_of_def)

lemma rows_songplays_concat:
  assumes "songplays_table song_df df = Inr sp"
  shows "rows sp = concat (map (fact_rows_of song_df df) (rows df))"
proof -
  define idxs where "idxs = map (index_of (columns df @ columns song_df))
                         [''start_time'', ''userId'', ''level'', ''song_id'', ''artist_id'',
                          ''sessionId'', ''location'', ''userAgent'']"
  define m where "m = matches song_df (index_of (columns song_df) ''title'')
                                   (index_of (columns df) ''song'')"
  have "songplays_table song_df df =
          Inr \<lparr>columns = [''start_time'', ''userId'', ''level'', ''song_id'', ''artist_id'',
                     ''sessionId'', ''location'', ''userAgent''],
               rows = map (project idxs) (concat (map m (rows df)))\<rparr>"
    unfolding idxs_def m_def by (rule songplays_table_rows [OF assms]) simp
  with assms have "rows sp = map (project idxs) (concat (map m (rows df)))"
    by auto
  moreover have "fact_rows_of song_df df = (\<lambda>a. map (project idxs) (m a))"
    unfolding idxs_def m_def by (rule ext) (rule fact_rows_of_eq [OF assms])
  ultimately show ?thesis
    by (simp only: map_concat map_map comp_def)
qed

lemma length_fact_rows_of:
  assumes "songplays_table song_df df = Inr sp"
  shows "length (fact_rows_of song_df df a) =
           length (filter (\<lambda>b. cell_of song_df ''title'' b = cell_of df ''song'' a \<and>
                               cell_of df ''song'' a \<noteq> PNone) (rows song_df))"
proof -
  have "(\<lambda>b. sql_eq (b ! index_of (columns song_df) ''title'') (a ! index_of (columns df) ''song'')) =
        (\<lambda>b. cell_of song_df ''title'' b = cell_of df ''song'' a \<and> cell_of df ''song'' a \<noteq> PNone)"
    by (auto simp: sql_eq_def cell_of_def fun_eq_iff)
  then show ?thesis
    by (simp add: fact_rows_of_eq [OF assms] matches_def)
qed

lemma songplays_table_by_columns:
  assumes "songplays_table song_df df = Inr sp"
  shows "\<exists>sp'. songplays_table song_df (df\<lparr>rows := rs\<rparr>) = Inr sp'"
  using songplays_table_rows [OF assms, of "df\<lparr>rows := rs\<rparr>"] by simp

lemma example_songplays:
  "songplays_table example_song_df example_log_df =
     Inr \<lparr>columns = [''start_time'', ''userId'', ''level'', ''song_id'', ''artist_id'',
                     ''sessionId'', ''location'', ''userAgent''],
          rows = example_fact_rows\<rparr>"
  by (simp add: songplays_table_def and_then_def attr_def resolve_def select_eq join_def
        matches_def sql_eq_def project_def example_song_df_def example_log_df_def
        example_fact_rows_def)

lemma example_fact_rows_of:
  "map (fact_rows_of example_song_df example_log_df) (rows example_log_df) =
     [[example_fact_rows ! 0], [example_fact_rows ! 1, example_fact_rows ! 2], [], []]"
  by (simp add: fact_rows_of_def songplays_table_def and_then_def attr_def resolve_def
        select_eq join_def matches_def sql_eq_def project_def example_song_df_def
        example_log_df_def example_fact_rows_def)

text \<open>
  Claim C4. When the join stage succeeds, the fact rows are the fact rows of the event rows,
  one event after the other. An event row whose song equals the title of no row of the songs
  frame read back from storage gives no fact row; an event row whose song is not null and
  equals the title of exactly one such row gives exactly one. Whether the stage raises is
  decided by the column names alone, so no event row, matched or not, makes it fail.
\<close>

theorem join_drops_unmatched_keeps_matched:
  assumes "songplays_table song_df df = Inr sp"
  shows "rows sp = concat (map (fact_rows_of song_df df) (rows df)) \<and>
         (\<forall>a. (\<forall>b\<in>set (rows song_df). cell_of song_df ''title'' b \<noteq> cell_of df ''song'' a) \<longrightarrow>
              fact_rows_of song_df df a = []) \<and>
         (\<forall>a b. cell_of df ''song'' a \<noteq> PNone \<and>
                filter (\<lambda>b. cell_of song_df ''title'' b = cell_of df ''song'' a) (rows song_df) = [b]
                \<longrightarrow> length (fact_rows_of song_df df a) = 1) \<and>
         (\<forall>rs. \<exists>sp'. songplays_table song_df (df\<lparr>rows := rs\<rparr>) = Inr sp')"
proof (intro conjI allI impI)
  show "rows sp = concat (map (fact_rows_of song_df df) (rows df))"
    using assms by (rule rows_songplays_concat)
next
  fix a assume "\<forall>b\<in>set (rows song_df). cell_of song_df ''title'' b \<noteq> cell_of df ''song'' a"
  then have "filter (\<lambda>b. cell_of song_df ''title'' b = cell_of df ''song'' a \<and>
                               cell_of df ''song'' a \<noteq> PNone) (rows song_df) = []"
    by (simp add: filter_empty_conv)
  with length_fact_rows_of [OF assms, of a] show "fact_rows_of song_df df a = []"
    by simp
next
  fix a b
  assume h: "cell_of df ''song'' a \<noteq> PNone \<and>
         filter (\<lambda>b. cell_of song_df ''title'' b = cell_of df ''song'' a) (rows song_df) = [b]"
  then have "filter (\<lambda>b. cell_of song_df ''title'' b = cell_of df ''song'' a \<and>
                               cell_of df ''song'' a \<noteq> PNone) (rows song_df) = [b]"
    by simp
  with length_fact_rows_of [OF assms, of a] show "length (fact_rows_of song_df df a) = 1"
    by simp
next
  fix rs show "\<exists>sp'. songplays_table song_df (df\<lparr>rows := rs\<rparr>) = Inr sp'"
    using assms by (rule songplays_table_by_columns)
qed

theorem join_drops_unmatched_keeps_matched_witness:
  "songplays_table example_song_df example_log_df =
     Inr \<lparr>columns = [''start_time'', ''userId'', ''level'', ''song_id'', ''artist_id'',
                     ''sessionId'', ''location'', ''userAgent''],
          rows = example_fact_rows\<rparr> \<and>
   cell_of example_log_df ''song'' (rows example_log_df ! 2) = PStr ''Song C'' \<and>
   fact_rows_of example_song_df example_log_df (rows example_log_df ! 2) = [] \<and>
   cell_of example_log_df ''song'' (rows example_log_df ! 0) = PStr ''Song A'' \<and>
   filter (\<lambda>b. cell_of example_song_df ''title'' b = PStr ''Song A'') (rows example_song_df) =
     [rows example_song_df ! 0] \<and>
   length (fact_rows_of example_song_df example_log_df (rows example_log_df ! 0)) = 1"
proof -
  note t = join_drops_unmatched_keeps_matched [OF example_songplays]
  have c: "cell_of example_log_df ''song'' (rows example_log_df ! 2) = PStr ''Song C''"
    by (simp add: cell_of_def example_log_df_def)
  have a: "cell_of example_log_df ''song'' (rows example_log_df ! 0) = PStr ''Song A''"
    by (simp add: cell_of_def example_log_df_def)
  have none: "\<forall>b\<in>set (rows example_song_df).
                cell_of example_song_df ''title'' b \<noteq> cell_of example_log_df ''song'' (rows example_log_df ! 2)"
    unfolding c by (simp add: cell_of_def example_song_df_def)
  have one: "filter (\<lambda>b. cell_of example_song_df ''title'' b = PStr ''Song A'') (rows example_song_df) =
     [rows example_song_df ! 0]"
    by (simp add: cell_of_def example_song_df_def)
  from t none have 1: "fact_rows_of example_song_df example_log_df (rows example_log_df ! 2) = []"
    by blast
  from t a one have 2: "length (fact_rows_of example_song_df example_log_df (rows example_log_df ! 0)) = 1"
    by simp
  from example_songplays c a one 1 2 show ?thesis
    by simp
qed

text \<open>
  Claim C10. When the join stage succeeds, an event row gives as many fact rows as there are
  rows of the songs frame whose title equals its song (none when the song is null): two
  tracks under one title give two fact rows for each event that plays the title, and the
  stage does not raise.
\<close>

theorem join_multiplies_fact_rows:
  assumes "songplays_table song_df df = Inr sp"
  shows "rows sp = concat (map (fact_rows_of song_df df) (rows df)) \<and>
         (\<forall>a. length (fact_rows_of song_df df a) =
               length (filter (\<lambda>b. cell_of song_df ''title'' b = cell_of df ''song'' a \<and>
                                   cell_of df ''song'' a \<noteq> PNone) (rows song_df))) \<and>
         (\<forall>rs. \<exists>sp'. songplays_table song_df (df\<lparr>rows := rs\<rparr>) = Inr sp')"
  using rows_songplays_concat [OF assms] length_fact_rows_of [OF assms]
    songplays_table_by_columns [OF assms] by simp

theorem join_multiplies_fact_rows_witness:
  "songplays_table example_song_df example_log_df =
     Inr \<lparr>columns = [''start_time'', ''userId'', ''level'', ''song_id'', ''artist_id'',
                     ''sessionId'', ''location'', ''userAgent''],
          rows = example_fact_rows\<rparr> \<and>
   filter (\<lambda>b. cell_of example_song_df ''title'' b = PStr ''Song B'') (rows example_song_df) =
     [rows example_song_df ! 1, rows example_song_df ! 2] \<and>
   fact_rows_of example_song_df example_log_df (rows example_log_df ! 1) =
     [example_fact_rows ! 1, example_fact_rows ! 2] \<and>
   example_fact_rows =
     concat (map (fact_rows_of example_song_df example_log_df) (rows example_log_df))"
proof -
  note t = join_multiplies_fact_rows [OF example_songplays]
  have two: "filter (\<lambda>b. cell_of example_song_df ''title'' b = PStr ''Song B'') (rows example_song_df) =
     [rows example_song_df ! 1, rows example_song_df ! 2]"
    by (simp add: cell_of_def example_song_df_def)
  have "fact_rows_of example_song_df example_log_df (rows example_log_df ! 1) =
     [example_fact_rows ! 1, example_fact_rows ! 2]"
    using example_fact_rows_of by (simp add: example_log_df_def)
  with t two example_songplays show ?thesis
    by simp
qed

section \<open>The synthetic identifier\<close>

text \<open>
  The signed value of an identifier is the partition number times \<open>2 ^ 33\<close> plus the row's
  position in its partition, as long as there are at most \<open>2 ^ 30 = 1073741824\<close> partitions
  of at most \<open>2 ^ 33 = 8589934592\<close> rows each, the bounds that the engine documents.
\<close>

lemma id_as_int:
  "monotonically_increasing_id p i = (word_of_int (int p * 8589934592 + int i) :: 64 word)"
  by (simp add: monotonically_increasing_id_def push_bit_eq_mult)

lemma sint_word_of_int_64: "sint (word_of_int k :: 64 word) = signed_take_bit 63 k"
  by (simp add: sint_sbintrunc')

lemma sint_id:
  assumes "p < 1073741824" "i < 8589934592"
  shows "sint (monotonically_increasing_id p i) = int p * 8589934592 + int i"
proof -
  have "int p * 8589934592 + int i < 9223372036854775808"
    using assms by linarith
  moreover have "0 \<le> int p * 8589934592 + int i"
    by simp
  ultimately have "signed_take_bit 63 (int p * 8589934592 + int i) = int p * 8589934592 + int i"
    by (simp add: signed_take_bit_int_eq_self_iff)
  then show ?thesis
    by (simp only: id_as_int sint_word_of_int_64)
qed

lemma length_ids_from: "length (ids_from p parts) = length (concat parts)"
  by (induction parts arbitrary: p) simp_all

lemma ids_from_lower:
  assumes "p + length parts \<le> 1073741824" "\<forall>rs\<in>set parts. length rs \<le> 8589934592"
    and "x \<in> set (ids_from p parts)"
  shows "int p * 8589934592 \<le> sint x"
  using assms
proof (induction parts arbitrary: p)
  case Nil
  then show ?case by simp
next
  case (Cons rs parts)
  from Cons.prems(3) consider i where "i < length rs" "x = monotonically_increasing_id p i"
    | "x \<in> set (ids_from (Suc p) parts)"
    by auto
  then show ?case
  proof cases
    case 1
    with Cons.prems have "sint x = int p * 8589934592 + int i"
      by (simp add: sint_id)
    then show ?thesis by simp
  next
    case 2
    with Cons.prems have "int (Suc p) * 8589934592 \<le> sint x"
      by (intro Cons.IH) simp_all
    then show ?thesis by simp
  qed
qed

lemma ids_from_sorted:
  assumes "p + length parts \<le> 1073741824" "\<forall>rs\<in>set parts. length rs \<le> 8589934592"
  shows "sorted_wrt (\<lambda>a b. sint a < sint b) (ids_from p parts)"
  using assms
proof (induction parts arbitrary: p)
  case Nil
  then show ?case by simp
next
  case (Cons rs parts)
  have p: "p < 1073741824" and n: "length rs \<le> 8589934592"
    using Cons.prems by simp_all
  have here: "sorted_wrt (\<lambda>a b. sint a < sint b) (map (monotonically_increasing_id p) [0..<length rs])"
  proof -
    have "sorted_wrt (\<lambda>i j. sint (monotonically_increasing_id p i) < sint (monotonically_increasing_id p j))
            [0..<length rs]"
    proof (rule sorted_wrt_mono_rel [where P = "(<)"])
      fix i j assume "i \<in> set [0..<length rs]" "j \<in> set [0..<length rs]" "i < j"
      with p n show "sint (monotonically_increasing_id p i) < sint (monotonically_increasing_id p j)"
        by (simp add: sint_id)
    next
      show "sorted_wrt (<) [0..<length rs]"
        by (simp add: sorted_wrt_upt)
    qed
    then show ?thesis by (simp add: sorted_wrt_map)
  qed
  have rest: "sorted_wrt (\<lambda>a b. sint a < sint b) (ids_from (Suc p) parts)"
    using Cons.prems by (intro Cons.IH) simp_all
  have cross: "sint a < sint b"
    if "a \<in> set (map (monotonically_increasing_id p) [0..<length rs])"
      and "b \<in> set (ids_from (Suc p) parts)" for a b
  proof -
    from that(1) obtain i where i: "i < length rs" "a = monotonically_increasing_id p i"
      by auto
    with p n have "sint a = int p * 8589934592 + int i"
      by (simp add: sint_id)
    moreover have "int (Suc p) * 8589934592 \<le> sint b"
      using Cons.prems that(2) by (intro ids_from_lower [where parts = parts]) simp_all
    ultimately show ?thesis
      using i(1) n by simp
  qed
  show ?case
    using here rest cross by (simp add: sorted_wrt_append)
qed


text \<open>
  Claim C7. For the fact frame of a run, split into partitions in any way within the
  engine's bounds, line 116 generates one identifier for each fact row, and the identifiers
  are strictly increasing in row order as signed 64-bit numbers. The list is collected and
  dropped: the fact frame that goes to the writer has no \<^verbatim>\<open>songplay_id\<close> column.
\<close>

theorem songplay_ids_increasing:
  assumes "songplays_table song_df df = Inr sp"
      and "concat parts = rows sp"
      and "length parts \<le> 1073741824"
      and "\<forall>rs\<in>set parts. length rs \<le> 8589934592"
  shows "length (songplay_ids parts) = length (rows sp) \<and>
         sorted_wrt (\<lambda>a b. sint a < sint b) (songplay_ids parts) \<and>
         ''songplay_id'' \<notin> set (columns sp)"
proof -
  have "length (songplay_ids parts) = length (rows sp)"
    using assms(2) by (simp add: songplay_ids_def length_ids_from)
  moreover have "sorted_wrt (\<lambda>a b. sint a < sint b) (songplay_ids parts)"
    unfolding songplay_ids_def using assms(3,4) by (intro ids_from_sorted) simp_all
  moreover have "''songplay_id'' \<notin> set (columns sp)"
    using songplays_table_columns [OF assms(1)] by simp
  ultimately show ?thesis by simp
qed

theorem songplay_ids_increasing_witness:
  "concat [[example_fact_rows ! 0], [example_fact_rows ! 1, example_fact_rows ! 2]] =
     example_fact_rows \<and>
   songplay_ids [[example_fact_rows ! 0], [example_fact_rows ! 1, example_fact_rows ! 2]] =
     [0, 8589934592, 8589934593] \<and>
   sorted_wrt (\<lambda>a b. sint a < sint b)
     (songplay_ids [[example_fact_rows ! 0], [example_fact_rows ! 1, example_fact_rows ! 2]])"
proof -
  let ?parts = "[[example_fact_rows ! 0], [example_fact_rows ! 1, example_fact_rows ! 2]]"
  have c: "concat ?parts =
             rows \<lparr>columns = [''start_time'', ''userId'', ''level'', ''song_id'', ''artist_id'',
                     ''sessionId'', ''location'', ''userAgent''],
          rows = example_fact_rows\<rparr>"
    by (simp add: example_fact_rows_def)
  have n: "length ?parts \<le> 1073741824"
    by simp
  have b: "\<forall>rs\<in>set ?parts. length rs \<le> 8589934592"
    by simp
  have v: "songplay_ids ?parts = [0, 8589934592, 8589934593]"
    by (simp add: songplay_ids_def monotonically_increasing_id_def upt_rec)
  from songplay_ids_increasing [OF example_songplays c n b] c v show ?thesis
    by simp
qed



end
